theory Spec2Isabelle
  imports Complex_Main "HOL-Library.Word" "HOL-Library.Multiset"
begin

section \<open>Values of the browser platform\<close>

text \<open>
  The client is TypeScript running in a browser. Strings are byte strings (UTF-8), file
  contents are lists of bytes, and the numbers the upload code computes with (sizes, chunk
  sizes, indices, counts) are integers far below \<open>2 ^ 53\<close>, where the arithmetic of
  JavaScript numbers is exact; they are modelled as \<open>int\<close>. The one place where
  a number can leave the integers is the division inside \<open>Math.ceil(size / chunkSize)\<close>
  with a zero divisor, so its result has its own type.
\<close>

type_synonym byte = "8 word"

datatype jsnum = Finite int | PosInfinity | NegInfinity | NaN

text \<open>\<open>Math.ceil(a / b)\<close> for integers \<open>a\<close> and \<open>b\<close>.\<close>

definition Math_ceil_div :: "int \<Rightarrow> int \<Rightarrow> jsnum" where
  "Math_ceil_div a b =
     (if b = 0 then (if a = 0 then NaN else if 0 < a then PosInfinity else NegInfinity)
      else Finite (- ((- a) div b)))"

text \<open>\<open>String(n)\<close> for an integer number: decimal digits, a minus sign when negative.\<close>

definition digit_char :: "nat \<Rightarrow> char" where
  "digit_char d = ''0123456789'' ! d"

function dec_nat :: "nat \<Rightarrow> string" where
  "dec_nat n = (if n < 10 then [digit_char n] else dec_nat (n div 10) @ [digit_char (n mod 10)])"
  by pat_completeness auto
termination
  by (relation "measure id") auto

declare dec_nat.simps [simp del]

definition String_of_int :: "int \<Rightarrow> string" where
  "String_of_int i = (if i < 0 then CHR ''-'' # dec_nat (nat (- i)) else dec_nat (nat i))"

text \<open>ASCII lower-casing, as header names and the scheme test of a URL use it.\<close>

definition to_lower_char :: "char \<Rightarrow> char" where
  "to_lower_char c =
     (case map_of (zip ''ABCDEFGHIJKLMNOPQRSTUVWXYZ'' ''abcdefghijklmnopqrstuvwxyz'') c of
        None \<Rightarrow> c
      | Some l \<Rightarrow> l)"

definition to_lower :: "string \<Rightarrow> string" where
  "to_lower s = map to_lower_char s"

text \<open>\<open>s.startsWith(p)\<close> and \<open>s.includes(p)\<close>.\<close>

definition starts_with :: "string \<Rightarrow> string \<Rightarrow> bool" where
  "starts_with s p = (take (length p) s = p)"

fun str_includes :: "string \<Rightarrow> string \<Rightarrow> bool" where
  "str_includes [] p = (p = [])"
| "str_includes (c # s) p = (starts_with (c # s) p \<or> str_includes s p)"

text \<open>\<open>s.split(c)\<close> for a one-character separator: never empty.\<close>

fun split_on :: "char \<Rightarrow> string \<Rightarrow> string list" where
  "split_on c [] = [[]]"
| "split_on c (x # xs) =
     (if x = c then [] # split_on c xs
      else (let r = split_on c xs in (x # hd r) # tl r))"

text \<open>\<open>s.trim()\<close>, on the ASCII white space characters.\<close>

definition is_space :: "char \<Rightarrow> bool" where
  "is_space c = (c \<in> set [CHR 0x09, CHR 0x0A, CHR 0x0B, CHR 0x0C, CHR 0x0D, CHR '' ''])"

definition js_trim :: "string \<Rightarrow> string" where
  "js_trim s = rev (dropWhile is_space (rev (dropWhile is_space s)))"

section \<open>Files, blobs and chunks\<close>

text \<open>A \<open>File\<close>: its name, its MIME type and its content; \<open>file.size\<close> is the length.\<close>

record js_file =
  file_name :: string
  file_type :: string
  file_bytes :: "byte list"

definition file_size :: "js_file \<Rightarrow> int" where
  "file_size f = int (length (file_bytes f))"

text \<open>
  \<open>Blob.slice(start, end)\<close> of the File API: a negative position counts from the end,
  both positions are clamped to the blob, and an empty span gives an empty blob.
\<close>

definition blob_slice :: "byte list \<Rightarrow> int \<Rightarrow> int \<Rightarrow> byte list" where
  "blob_slice bs start endPos =
     (let sz = int (length bs);
          relativeStart = (if start < 0 then max (sz + start) 0 else min start sz);
          relativeEnd = (if endPos < 0 then max (sz + endPos) 0 else min endPos sz);
          span = max (relativeEnd - relativeStart) 0
      in take (nat span) (drop (nat relativeStart) bs))"

text \<open>
  \<open>uploadWorker\<close>, the three lines that cut chunk \<open>nextIndex\<close> out of the file:
  \<open>start = nextIndex * chunkSize\<close>, \<open>end = Math.min(start + chunkSize, file.size)\<close>,
  \<open>blob = file.slice(start, end)\<close>.
\<close>

definition chunk_blob :: "js_file \<Rightarrow> int \<Rightarrow> int \<Rightarrow> byte list" where
  "chunk_blob f chunkSize nextIndex =
     (let start = nextIndex * chunkSize;
          endPos = min (start + chunkSize) (file_size f)
      in blob_slice (file_bytes f) start endPos)"

text \<open>\<open>handleUpload\<close>: \<open>total = Math.ceil(file.size / chunkSize)\<close>.\<close>

definition total_chunks :: "js_file \<Rightarrow> int \<Rightarrow> jsnum" where
  "total_chunks f chunkSize = Math_ceil_div (file_size f) chunkSize"

text \<open>
  The \<open>totalChunks\<close> memo of the component: zero while no file is selected.
\<close>

definition totalChunks :: "js_file option \<Rightarrow> int \<Rightarrow> jsnum" where
  "totalChunks fo chunkSize =
     (case fo of None \<Rightarrow> Finite 0 | Some f \<Rightarrow> Math_ceil_div (file_size f) chunkSize)"

text \<open>
  The body of the session-create request that \<open>handleUpload\<close> passes to
  \<open>createUploadSession\<close>. The fields carry the names of the JSON properties, prefixed.
\<close>

record session_payload =
  p_filename :: string
  p_size :: int
  p_mime_type :: string
  p_chunk_size :: int
  p_total_chunks :: jsnum
  p_file_sha256 :: string

definition session_create_payload :: "js_file \<Rightarrow> int \<Rightarrow> string \<Rightarrow> session_payload" where
  "session_create_payload f chunkSize fileHash =
     \<lparr> p_filename = file_name f, p_size = file_size f, p_mime_type = file_type f,
       p_chunk_size = chunkSize, p_total_chunks = total_chunks f chunkSize,
       p_file_sha256 = fileHash \<rparr>"

text \<open>
  The ceiling of the quotient as the specification writes it, over the reals.
\<close>

definition spec_total_chunks :: "int \<Rightarrow> int \<Rightarrow> int" where
  "spec_total_chunks sz chunkSize = \<lceil>real_of_int sz / real_of_int chunkSize\<rceil>"

section \<open>Hashes in hexadecimal\<close>

text \<open>
  \<open>bufferToHex\<close>: every byte as \<open>byte.toString(16).padStart(2, '0')\<close>, joined.
\<close>

definition hex_digit :: "nat \<Rightarrow> char" where
  "hex_digit d = ''0123456789abcdef'' ! d"

function toString16 :: "nat \<Rightarrow> string" where
  "toString16 n = (if n < 16 then [hex_digit n] else toString16 (n div 16) @ [hex_digit (n mod 16)])"
  by pat_completeness auto
termination
  by (relation "measure id") auto

declare toString16.simps [simp del]

definition padStart :: "nat \<Rightarrow> char \<Rightarrow> string \<Rightarrow> string" where
  "padStart n c s = replicate (n - length s) c @ s"

definition bufferToHex :: "byte list \<Rightarrow> string" where
  "bufferToHex buffer = concat (map (\<lambda>b. padStart 2 (CHR ''0'') (toString16 (unat b))) buffer)"

text \<open>
  \<open>sha256HexFromBlob\<close> and \<open>sha256HexFromFile\<close>: the digest of the platform
  (\<open>crypto.subtle.digest('SHA-256', ...)\<close>) is a parameter.
\<close>

definition sha256HexFromBlob :: "(byte list \<Rightarrow> byte list) \<Rightarrow> byte list \<Rightarrow> string" where
  "sha256HexFromBlob digest blob = bufferToHex (digest blob)"

definition sha256HexFromFile :: "(byte list \<Rightarrow> byte list) \<Rightarrow> js_file \<Rightarrow> string" where
  "sha256HexFromFile digest f = bufferToHex (digest (file_bytes f))"

section \<open>HTTP requests and responses\<close>

text \<open>
  A \<open>Headers\<close> object is a list of name and value pairs; names compare without regard
  to case. \<open>get\<close> joins the values of all pairs of that name with a comma and a space,
  in order, and gives \<open>null\<close> when there is none. \<open>set\<close> overwrites the first pair
  of that name and drops the others, or appends.
\<close>

type_synonym headers = "(string \<times> string) list"

definition headers_has :: "string \<Rightarrow> headers \<Rightarrow> bool" where
  "headers_has name hs = (to_lower name \<in> set (map (\<lambda>kv. to_lower (fst kv)) hs))"

fun join_values :: "string list \<Rightarrow> string" where
  "join_values [] = []"
| "join_values [v] = v"
| "join_values (v # w # vs) = v @ '', '' @ join_values (w # vs)"

definition headers_get :: "string \<Rightarrow> headers \<Rightarrow> string option" where
  "headers_get name hs =
     (let vs = map snd (filter (\<lambda>kv. to_lower (fst kv) = to_lower name) hs)
      in if vs = [] then None else Some (join_values vs))"

fun headers_replace :: "string \<Rightarrow> string \<Rightarrow> headers \<Rightarrow> headers" where
  "headers_replace name v [] = []"
| "headers_replace name v (kv # hs) =
     (if to_lower (fst kv) = to_lower name
      then (fst kv, v) # filter (\<lambda>kv'. to_lower (fst kv') \<noteq> to_lower name) hs
      else kv # headers_replace name v hs)"

definition headers_set :: "string \<Rightarrow> string \<Rightarrow> headers \<Rightarrow> headers" where
  "headers_set name v hs =
     (if headers_has name hs then headers_replace name v hs else hs @ [(name, v)])"

datatype body_init = NoBody | FormData | StringBody string | BlobBody "byte list"

record request_init =
  ri_method :: "string option"
  ri_headers :: headers
  ri_body :: body_init

record http_request =
  rq_url :: string
  rq_method :: "string option"
  rq_headers :: headers
  rq_body :: body_init

record http_response =
  rs_status :: nat
  rs_headers :: headers
  rs_text :: string

text \<open>\<open>response.ok\<close>: the status is in the range 200 to 299.\<close>

definition response_ok :: "http_response \<Rightarrow> bool" where
  "response_ok r = (200 \<le> rs_status r \<and> rs_status r \<le> 299)"

text \<open>\<open>fetch\<close> either rejects (no response at all) or resolves with a response.\<close>

datatype fetch_result = NetworkError string | Response http_response

text \<open>
  What the client code can throw: the \<open>Error\<close> that \<open>apiFetch\<close> and
  \<open>uploadChunk\<close> raise themselves, the \<open>SyntaxError\<close> of \<open>response.json()\<close>,
  the \<open>TypeError\<close> of a rejected \<open>fetch\<close>, the \<open>RangeError\<close> of an invalid
  date or array length, and any other rejection of a platform promise.
\<close>

datatype js_error =
    Error string
  | SyntaxError string
  | TypeError string
  | RangeError string
  | OtherError string

definition error_message :: "js_error \<Rightarrow> string" where
  "error_message e =
     (case e of Error m \<Rightarrow> m | SyntaxError m \<Rightarrow> m | TypeError m \<Rightarrow> m
      | RangeError m \<Rightarrow> m | OtherError m \<Rightarrow> m)"

text \<open>JavaScript truthiness of an optional string: present and not empty.\<close>

definition truthy :: "string option \<Rightarrow> bool" where
  "truthy so = (case so of None \<Rightarrow> False | Some s \<Rightarrow> s \<noteq> [])"

text \<open>\<open>a || b\<close> on strings.\<close>

definition or_else :: "string \<Rightarrow> string \<Rightarrow> string" where
  "or_else a b = (if a \<noteq> [] then a else b)"

subsection \<open>apiFetch\<close>

datatype 'j api_value = EmptyObject | JsonValue 'j | TextValue string

text \<open>\<open>response.headers.get('Content-Type') ?? ''\<close>.\<close>

definition contentType_of :: "http_response \<Rightarrow> string" where
  "contentType_of response =
     (case headers_get ''Content-Type'' (rs_headers response) of None \<Rightarrow> [] | Some c \<Rightarrow> c)"

text \<open>
  The part of \<open>apiFetch\<close> after the response has arrived. \<open>json_parse\<close> is the JSON
  parser of the platform: the parsed value, or the message of its \<open>SyntaxError\<close>.
\<close>

definition apiFetch_response ::
  "(string \<Rightarrow> string + 'j) \<Rightarrow> http_response \<Rightarrow> js_error + 'j api_value" where
  "apiFetch_response json_parse response =
     (if \<not> response_ok response
      then Inl (Error (or_else (rs_text response)
                 (''Request failed ('' @ String_of_int (int (rs_status response)) @ '')'')))
      else if rs_status response = 204 then Inr EmptyObject
      else (let contentType = contentType_of response
            in if str_includes contentType ''application/json''
               then (case json_parse (rs_text response) of
                       Inl m \<Rightarrow> Inl (SyntaxError m) | Inr j \<Rightarrow> Inr (JsonValue j))
               else Inr (TextValue (rs_text response))))"

definition apiFetch_request ::
  "string \<Rightarrow> string \<Rightarrow> request_init \<Rightarrow> string option \<Rightarrow> http_request" where
  "apiFetch_request API_BASE_URL path options token =
     (let h0 = headers_set ''Accept'' ''application/json'' (ri_headers options);
          h1 = (if ri_body options \<noteq> FormData \<and> \<not> headers_has ''Content-Type'' h0
                   \<and> truthy (ri_method options) \<and> ri_method options \<noteq> Some ''GET''
                then headers_set ''Content-Type'' ''application/json'' h0 else h0);
          h2 = (case token of
                  None \<Rightarrow> h1
                | Some t \<Rightarrow> if t \<noteq> [] then headers_set ''Authorization'' (''Bearer '' @ t) h1 else h1)
      in \<lparr> rq_url = API_BASE_URL @ path, rq_method = ri_method options,
           rq_headers = h2, rq_body = ri_body options \<rparr>)"

definition apiFetch ::
  "string \<Rightarrow> (http_request \<Rightarrow> fetch_result) \<Rightarrow> (string \<Rightarrow> string + 'j) \<Rightarrow>
   string \<Rightarrow> request_init \<Rightarrow> string option \<Rightarrow> js_error + 'j api_value" where
  "apiFetch API_BASE_URL fetch json_parse path options token =
     (case fetch (apiFetch_request API_BASE_URL path options token) of
        NetworkError m \<Rightarrow> Inl (TypeError m)
      | Response response \<Rightarrow> apiFetch_response json_parse response)"

subsection \<open>uploadChunk\<close>

definition uploadChunk_request ::
  "string \<Rightarrow> string \<Rightarrow> string \<Rightarrow> int \<Rightarrow> byte list \<Rightarrow> string \<Rightarrow> string \<Rightarrow> http_request" where
  "uploadChunk_request API_BASE_URL token sessionId index chunk checksum idempotencyKey =
     (let h1 = headers_set ''Content-Type'' ''application/octet-stream'' [];
          h2 = headers_set ''X-Chunk-Size'' (String_of_int (int (length chunk))) h1;
          h3 = headers_set ''X-Chunk-Checksum'' checksum h2;
          h4 = headers_set ''Idempotency-Key'' idempotencyKey h3;
          h5 = headers_set ''Authorization'' (''Bearer '' @ token) h4
      in \<lparr> rq_url = API_BASE_URL @ ''/upload/sessions/'' @ sessionId @ ''/chunk/''
                      @ String_of_int index,
           rq_method = Some ''PUT'', rq_headers = h5, rq_body = BlobBody chunk \<rparr>)"

definition uploadChunk_response :: "fetch_result \<Rightarrow> js_error + unit" where
  "uploadChunk_response r =
     (case r of
        NetworkError m \<Rightarrow> Inl (TypeError m)
      | Response response \<Rightarrow>
          if \<not> response_ok response
          then Inl (Error (or_else (rs_text response)
                 (''Chunk upload failed ('' @ String_of_int (int (rs_status response)) @ '')'')))
          else Inr ())"

definition uploadChunk ::
  "string \<Rightarrow> (http_request \<Rightarrow> fetch_result) \<Rightarrow> string \<Rightarrow> string \<Rightarrow> int \<Rightarrow> byte list \<Rightarrow>
   string \<Rightarrow> string \<Rightarrow> js_error + unit" where
  "uploadChunk API_BASE_URL fetch token sessionId index chunk checksum idempotencyKey =
     uploadChunk_response
       (fetch (uploadChunk_request API_BASE_URL token sessionId index chunk checksum idempotencyKey))"

section \<open>The upload run of UploadManager\<close>

subsection \<open>The probe and the upload queue\<close>

text \<open>The answer of \<open>getSessionStatus\<close>.\<close>

record session_status =
  st_received :: "int list"
  st_missing :: "int list"
  st_status :: string

text \<open>
  \<open>Array.from({ length: total }, (_, idx) => idx)\<close>: the indices below \<open>total\<close>; no
  index for a length that is not positive or not a number, and a \<open>RangeError\<close> for a
  length beyond the longest array.
\<close>

definition Array_from_length :: "jsnum \<Rightarrow> js_error + int list" where
  "Array_from_length len =
     (case len of
        Finite t \<Rightarrow>
          if t \<le> 0 then Inr []
          else if t > 2 ^ 32 - 1 then Inl (RangeError ''Invalid array length'')
          else Inr (map int [0..<nat t])
      | PosInfinity \<Rightarrow> Inl (RangeError ''Invalid array length'')
      | NegInfinity \<Rightarrow> Inr []
      | NaN \<Rightarrow> Inr [])"

text \<open>
  \<open>missing = probe.missing.length > 0 ? probe.missing : Array.from(...)\<close>, which
  \<open>uploadQueue = [...missing]\<close> copies.
\<close>

definition upload_queue :: "session_status \<Rightarrow> jsnum \<Rightarrow> js_error + int list" where
  "upload_queue probe total' =
     (if length (st_missing probe) > 0 then Inr (st_missing probe) else Array_from_length total')"

subsection \<open>The worker pool\<close>

text \<open>
  What a run needs from its surroundings: the base URL of the API, the bearer token, the
  session id, the file, the chunk size and the digest of the platform.
\<close>

record upload_ctx =
  cx_api_base :: string
  cx_token :: string
  cx_session :: string
  cx_file :: js_file
  cx_chunk_size :: int
  cx_digest :: "byte list \<Rightarrow> byte list"

text \<open>
  An \<open>uploadWorker\<close> is a coroutine. It runs without interruption from one \<open>await\<close> to
  the next, so it is always in one of these places: waiting for the checksum of the chunk it
  has claimed, waiting for the answer to the PUT of that chunk, returned, or thrown.
\<close>

datatype worker = Hashing int | Uploading int | Finished | Crashed js_error

text \<open>
  The events that resume a waiting worker: its checksum is ready (the event carries the
  UUID that \<open>crypto.randomUUID()\<close> hands out next), its checksum promise rejects, or
  its \<open>fetch\<close> settles.
\<close>

datatype event =
    DigestResolved nat string
  | DigestRejected nat js_error
  | FetchSettled nat fetch_result

text \<open>
  The shared state of a run: the queue, the workers, the PUT requests issued so far (each
  with its chunk index and the UUID drawn for it), the \<open>uploaded\<close> counter and the first rejection among the workers
  (what \<open>Promise.all\<close> rejects with). \<open>claims\<close> is a history: which worker shifted
  which index off the queue, in order.
\<close>

record pool =
  uploadQueue :: "int list"
  workers :: "worker list"
  claims :: "(nat \<times> int) list"
  puts :: "(int \<times> string \<times> http_request) list"
  uploaded :: nat
  rejection :: "js_error option"

definition MAX_CONCURRENCY :: nat where
  "MAX_CONCURRENCY = 4"

text \<open>
  The head of the \<open>while\<close> loop of worker \<open>w\<close>: return when the queue is empty,
  otherwise shift the next index off it and start the checksum of that chunk.
\<close>

definition worker_loop :: "nat \<Rightarrow> pool \<Rightarrow> pool" where
  "worker_loop w s =
     (case uploadQueue s of
        [] \<Rightarrow> s\<lparr>workers := (workers s)[w := Finished]\<rparr>
      | nextIndex # rest \<Rightarrow>
          s\<lparr>uploadQueue := rest, workers := (workers s)[w := Hashing nextIndex],
            claims := claims s @ [(w, nextIndex)]\<rparr>)"

definition worker_throws :: "nat \<Rightarrow> js_error \<Rightarrow> pool \<Rightarrow> pool" where
  "worker_throws w e s =
     s\<lparr>workers := (workers s)[w := Crashed e],
       rejection := (case rejection s of None \<Rightarrow> Some e | Some e0 \<Rightarrow> Some e0)\<rparr>"

text \<open>The PUT request of the worker for chunk \<open>nextIndex\<close>.\<close>

definition chunk_request :: "upload_ctx \<Rightarrow> int \<Rightarrow> string \<Rightarrow> http_request" where
  "chunk_request cx nextIndex uuid =
     (let blob = chunk_blob (cx_file cx) (cx_chunk_size cx) nextIndex;
          checksum = sha256HexFromBlob (cx_digest cx) blob;
          idempotencyKey = cx_session cx @ ''-'' @ String_of_int nextIndex @ ''-'' @ uuid
      in uploadChunk_request (cx_api_base cx) (cx_token cx) (cx_session cx) nextIndex blob
           checksum idempotencyKey)"

text \<open>One event. An event for a worker that is not waiting for it changes nothing.\<close>

fun step :: "upload_ctx \<Rightarrow> event \<Rightarrow> pool \<Rightarrow> pool" where
  "step cx (DigestResolved w uuid) s =
     (if w < length (workers s)
      then (case workers s ! w of
              Hashing i \<Rightarrow>
                s\<lparr>workers := (workers s)[w := Uploading i],
                  puts := puts s @ [(i, uuid, chunk_request cx i uuid)]\<rparr>
            | _ \<Rightarrow> s)
      else s)"
| "step cx (DigestRejected w e) s =
     (if w < length (workers s)
      then (case workers s ! w of Hashing i \<Rightarrow> worker_throws w e s | _ \<Rightarrow> s)
      else s)"
| "step cx (FetchSettled w r) s =
     (if w < length (workers s)
      then (case workers s ! w of
              Uploading i \<Rightarrow>
                (case uploadChunk_response r of
                   Inl e \<Rightarrow> worker_throws w e s
                 | Inr u \<Rightarrow> worker_loop w (s\<lparr>uploaded := uploaded s + 1\<rparr>))
            | _ \<Rightarrow> s)
      else s)"

fun run_events :: "upload_ctx \<Rightarrow> event list \<Rightarrow> pool \<Rightarrow> pool" where
  "run_events cx [] s = s"
| "run_events cx (ev # evs) s = run_events cx evs (step cx ev s)"

text \<open>
  \<open>Array.from({ length: n }, () => uploadWorker())\<close>: the workers are started one after
  the other, and each runs up to its first \<open>await\<close> before the next is started.
\<close>

fun start_workers :: "nat \<Rightarrow> pool \<Rightarrow> pool" where
  "start_workers 0 s = s"
| "start_workers (Suc n) s =
     start_workers n (worker_loop (length (workers s)) (s\<lparr>workers := workers s @ [Finished]\<rparr>))"

definition start_pool :: "int list \<Rightarrow> nat \<Rightarrow> pool" where
  "start_pool missing receivedCount =
     start_workers (min MAX_CONCURRENCY (length missing))
       \<lparr> uploadQueue = missing, workers = [], claims = [], puts = [],
         uploaded = receivedCount, rejection = None \<rparr>"

text \<open>
  \<open>await Promise.all(workers)\<close>: rejected with the first error thrown by a worker,
  resolved when every worker has returned, pending otherwise.
\<close>

datatype settled = Pending | Resolved | Rejected js_error

definition Promise_all :: "pool \<Rightarrow> settled" where
  "Promise_all s =
     (case rejection s of
        Some e \<Rightarrow> Rejected e
      | None \<Rightarrow> if list_all (\<lambda>w. w = Finished) (workers s) then Resolved else Pending)"

text \<open>The chunk indices of the PUT requests issued, and of the chunks being hashed.\<close>

definition put_indices :: "pool \<Rightarrow> int list" where
  "put_indices s = map fst (puts s)"

fun hashing_index :: "worker \<Rightarrow> int list" where
  "hashing_index (Hashing i) = [i]"
| "hashing_index w = []"

fun in_flight :: "worker \<Rightarrow> bool" where
  "in_flight (Uploading i) = True"
| "in_flight w = False"

text \<open>The UUIDs that a sequence of events hands out, and the key that a request carries.\<close>

fun event_uuid :: "event \<Rightarrow> string list" where
  "event_uuid (DigestResolved w uuid) = [uuid]"
| "event_uuid ev = []"

definition event_uuids :: "event list \<Rightarrow> string list" where
  "event_uuids evs = concat (map event_uuid evs)"

definition idempotency_key :: "http_request \<Rightarrow> string option" where
  "idempotency_key rq = headers_get ''Idempotency-Key'' (rq_headers rq)"

subsection \<open>The invariant of a run\<close>

text \<open>
  The indices that workers are hashing, the UUIDs of the PUT requests issued, and the
  invariant that every event keeps: the claims followed by the queue are the initial queue;
  an index is requested or being hashed at most as often as it was claimed, and exactly as
  often while no worker has thrown; a worker only returns once the queue is empty; and
  only workers of the pool claim.
\<close>

definition hashing_indices :: "pool \<Rightarrow> int list" where
  "hashing_indices s = concat (map hashing_index (workers s))"

definition put_uuids :: "pool \<Rightarrow> string list" where
  "put_uuids s = map (\<lambda>e. fst (snd e)) (puts s)"

fun is_crashed :: "worker \<Rightarrow> bool" where
  "is_crashed (Crashed e) = True"
| "is_crashed w = False"

definition run_inv :: "int list \<Rightarrow> pool \<Rightarrow> bool" where
  "run_inv q s =
     (map snd (claims s) @ uploadQueue s = q \<and>
      mset (put_indices s) + mset (hashing_indices s) \<subseteq># mset (map snd (claims s)) \<and>
      (rejection s = None \<longrightarrow>
         mset (put_indices s) + mset (hashing_indices s) = mset (map snd (claims s)) \<and>
         (\<forall>x \<in> set (workers s). \<not> is_crashed x)) \<and>
      (Finished \<in> set (workers s) \<longrightarrow> uploadQueue s = []) \<and>
      (\<forall>c \<in> set (claims s). fst c < length (workers s)))"

subsection \<open>The state of the component\<close>

text \<open>
  The texts that the component shows are Japanese literals in the source; each literal is a
  constructor here. \<open>StIdle\<close> is the initial status, \<open>StUploadComplete\<close> the literal
  that announces a finished upload (and enables the link button), \<open>StErrorOccurred\<close> the
  one set by the \<open>catch\<close> block.
\<close>

datatype upload_status =
    StIdle
  | StFileReady
  | StHashing
  | StCreatingSession
  | StProbing
  | StSendingChunks
  | StFinalizing
  | StMerging
  | StUploadComplete
  | StErrorOccurred

text \<open>
  A message on the screen: a text that came from an error object, or one of the fixed
  literals (the request for an expiry in UploadManager and in FileManager, and the notice
  that link creation failed in each of the two).
\<close>

datatype ui_text =
    Message string
  | ExpiryRequiredUM
  | ExpiryRequiredFM
  | LinkCreateFailedUM
  | LinkCreateFailedFM

record um_state =
  um_file :: "js_file option"
  um_chunkSize :: int
  um_status :: upload_status
  um_sessionId :: "string option"
  um_fileId :: "string option"
  um_progressPercent :: int
  um_downloadLink :: "string option"
  um_downloadFallbackLink :: "string option"
  um_error :: "ui_text option"
  um_copyMessage :: "ui_text option"
  um_finalizing :: bool
  um_linkExpiresAt :: string
  um_linkNoExpiry :: bool
  um_linkRequirePage :: bool
  um_linkCreateShort :: bool
  um_linkPassword :: string
  um_linkFormError :: "ui_text option"

subsection \<open>Finalize and the status poll\<close>

record finalize_result =
  fr_upload_session_id :: string
  fr_file_id :: "string option"
  fr_status :: string

text \<open>
  The \<open>for\<close> loop after finalize: up to 60 rounds, each a wait of two seconds and one
  \<open>getSessionStatus\<close>. \<open>getStatus n\<close> is what the server answers to request number
  \<open>n\<close>. The outcome tells how the loop was left and after how many requests.
\<close>

datatype poll_outcome = PollCompleted nat | PollThrew js_error nat | PollExhausted

function poll_loop :: "(nat \<Rightarrow> js_error + session_status) \<Rightarrow> nat \<Rightarrow> poll_outcome" where
  "poll_loop getStatus attempt =
     (if attempt < 60
      then (case getStatus attempt of
              Inl e \<Rightarrow> PollThrew e (attempt + 1)
            | Inr state \<Rightarrow>
                if st_status state = ''completed'' then PollCompleted (attempt + 1)
                else poll_loop getStatus (attempt + 1))
      else PollExhausted)"
  by pat_completeness auto
termination
  by (relation "measure (\<lambda>(g, attempt). 60 - attempt)") auto

declare poll_loop.simps [simp del]

text \<open>The \<open>catch\<close> block of \<open>handleUpload\<close>.\<close>

definition catch_upload :: "js_error \<Rightarrow> um_state \<Rightarrow> um_state" where
  "catch_upload err st =
     st\<lparr>um_error := Some (Message (error_message err)), um_status := StErrorOccurred,
        um_progressPercent := 0\<rparr>"

text \<open>
  The three statements that announce success: the status literal, 100 percent, and the
  call of \<open>onUploadComplete\<close>, which the second component of the results counts.
\<close>

definition announce_complete :: "um_state \<Rightarrow> um_state" where
  "announce_complete st = st\<lparr>um_status := StUploadComplete, um_progressPercent := 100\<rparr>"

text \<open>
  \<open>handleUpload\<close> from the call of \<open>finalizeSession\<close> to its end. The result is the
  state, the number of \<open>onUploadComplete\<close> calls and the number of status requests.
\<close>

definition finalize_phase ::
  "(js_error + finalize_result) \<Rightarrow> (nat \<Rightarrow> js_error + session_status) \<Rightarrow> um_state \<Rightarrow>
   um_state \<times> nat \<times> nat" where
  "finalize_phase fin getStatus st0 =
     (let st1 = st0\<lparr>um_status := StFinalizing, um_progressPercent := 90, um_finalizing := True\<rparr>
      in case fin of
           Inl err \<Rightarrow> (catch_upload err st1, 0, 0)
         | Inr finalizeResult \<Rightarrow>
             (let st2 = st1\<lparr>um_finalizing := False, um_fileId := fr_file_id finalizeResult,
                           um_status := StMerging\<rparr>
              in if fr_status finalizeResult \<noteq> ''completed''
                 then (case poll_loop getStatus 0 of
                         PollCompleted n \<Rightarrow> (announce_complete st2, 1, n)
                       | PollThrew err n \<Rightarrow> (catch_upload err st2, 0, n)
                       | PollExhausted \<Rightarrow> (announce_complete st2, 1, 60))
                 else (announce_complete st2, 1, 0)))"

subsection \<open>handleUpload\<close>

record upload_session =
  us_upload_session_id :: string
  us_accepted_chunk_size :: int
  us_expires_at :: string

text \<open>
  The server and the scheduler of the browser, as far as one run of \<open>handleUpload\<close>
  meets them: the answers to session creation, to the probe, to finalize and to the status
  requests, and the order in which the promises of the workers settle.
\<close>

record upload_env =
  env_create :: "session_payload \<Rightarrow> js_error + upload_session"
  env_probe :: "js_error + session_status"
  env_events :: "event list"
  env_finalize :: "js_error + finalize_result"
  env_status :: "nat \<Rightarrow> js_error + session_status"

text \<open>
  What a run leaves behind: the state of the component, the session-create payload it
  sent, the PUT requests issued, and the counts of \<open>finalizeSession\<close> calls, of
  status requests and of \<open>onUploadComplete\<close> calls. The progress figures that the workers publish while
  chunks are sent (count, speed, remaining time, percent up to 80) are informational and
  left out; the percent is modelled where the handler sets it to a constant (90 at
  finalize, 100 at completion, 0 in the \<open>catch\<close> block). The whole-file hash is
  taken to resolve.
\<close>

record upload_run =
  ur_state :: um_state
  ur_created :: "session_payload option"
  ur_puts :: "(int \<times> string \<times> http_request) list"
  ur_finalized :: nat
  ur_polls :: nat
  ur_completed :: nat

definition handleUpload ::
  "string \<Rightarrow> (byte list \<Rightarrow> byte list) \<Rightarrow> string \<Rightarrow> upload_env \<Rightarrow> um_state \<Rightarrow> upload_run" where
  "handleUpload API_BASE_URL digest token env st =
     (case um_file st of
        None \<Rightarrow>
          \<lparr> ur_state = st, ur_created = None, ur_puts = [],
            ur_finalized = 0, ur_polls = 0, ur_completed = 0 \<rparr>
      | Some f \<Rightarrow>
          (let chunkSize = um_chunkSize st;
               st1 = st\<lparr>um_error := None, um_status := StCreatingSession\<rparr>;
               fileHash = sha256HexFromFile digest f;
               total' = total_chunks f chunkSize;
               payload = session_create_payload f chunkSize fileHash
           in case env_create env payload of
                Inl err \<Rightarrow>
                  \<lparr> ur_state = catch_upload err st1, ur_created = Some payload, ur_puts = [],
                    ur_finalized = 0, ur_polls = 0, ur_completed = 0 \<rparr>
              | Inr session \<Rightarrow>
                  (let currentSessionId = us_upload_session_id session;
                       st2 = st1\<lparr>um_sessionId := Some currentSessionId, um_status := StProbing\<rparr>
                   in case env_probe env of
                        Inl err \<Rightarrow>
                          \<lparr> ur_state = catch_upload err st2, ur_created = Some payload,
                            ur_puts = [],
                            ur_finalized = 0, ur_polls = 0, ur_completed = 0 \<rparr>
                      | Inr probe \<Rightarrow>
                          (case upload_queue probe total' of
                             Inl err \<Rightarrow>
                               \<lparr> ur_state = catch_upload err st2, ur_created = Some payload,
                                 ur_puts = [],
                                 ur_finalized = 0, ur_polls = 0, ur_completed = 0 \<rparr>
                           | Inr missing \<Rightarrow>
                               (let cx = \<lparr> cx_api_base = API_BASE_URL, cx_token = token,
                                           cx_session = currentSessionId, cx_file = f,
                                           cx_chunk_size = chunkSize, cx_digest = digest \<rparr>;
                                    st3 = st2\<lparr>um_status := StSendingChunks\<rparr>;
                                    p = run_events cx (env_events env)
                                          (start_pool missing (length (remdups (st_received probe))))
                                in case Promise_all p of
                                     Pending \<Rightarrow>
                                       \<lparr> ur_state = st3, ur_created = Some payload,
                                         ur_puts = puts p,
                                         ur_finalized = 0, ur_polls = 0, ur_completed = 0 \<rparr>
                                   | Rejected err \<Rightarrow>
                                       \<lparr> ur_state = catch_upload err st3, ur_created = Some payload,
                                         ur_puts = puts p,
                                         ur_finalized = 0, ur_polls = 0, ur_completed = 0 \<rparr>
                                   | Resolved \<Rightarrow>
                                       (case finalize_phase (env_finalize env) (env_status env) st3 of
                                          (st4, completed, polls) \<Rightarrow>
                                            \<lparr> ur_state = st4, ur_created = Some payload,
                                              ur_puts = puts p, ur_finalized = 1,
                                              ur_polls = polls,
                                              ur_completed = completed \<rparr>))))))"

section \<open>Download links\<close>

text \<open>\<open>ApiDownloadLink\<close>, and of \<open>ApiFile\<close> the fields that the link list reads.\<close>

record api_link =
  l_id :: string
  l_url :: string
  l_expires_at :: "string option"
  l_download_count :: int
  l_never_expires :: bool
  l_require_download_page :: bool
  l_has_password :: bool
  l_short_url :: "string option"


text \<open>\<open>CreateDownloadLinkPayload\<close>: a property that is not set is \<open>None\<close>.\<close>

record link_payload =
  lp_expires_in_minutes :: "int option"
  lp_expires_at :: "string option"
  lp_no_expiry :: "bool option"
  lp_password :: "string option"
  lp_require_download_page :: "bool option"
  lp_create_short_link :: "bool option"

definition empty_payload :: link_payload where
  "empty_payload =
     \<lparr> lp_expires_in_minutes = None, lp_expires_at = None, lp_no_expiry = None,
       lp_password = None, lp_require_download_page = None, lp_create_short_link = None \<rparr>"

text \<open>
  The functions of the platform that the link code calls:
  \<open>new Date(s).toISOString()\<close> (\<open>None\<close> where it throws a \<open>RangeError\<close>),
  \<open>new URLSearchParams(q).get('token')\<close> and \<open>encodeURIComponent\<close>.
\<close>

record platform =
  pf_toISOString :: "string \<Rightarrow> string option"
  pf_get_token :: "string \<Rightarrow> string option"
  pf_encodeURIComponent :: "string \<Rightarrow> string"

text \<open>How the construction of a payload ends.\<close>

datatype built = Built link_payload | MissingExpiry | Threw js_error

text \<open>\<open>url.split('?')[1] ?? ''\<close>.\<close>

definition query_of_url :: "string \<Rightarrow> string" where
  "query_of_url u = (case split_on (CHR ''?'') u of a # q # rest \<Rightarrow> q | _ \<Rightarrow> [])"

text \<open>\<open>if (password.trim()) payload.password = password.trim()\<close>.\<close>

definition with_password :: "string \<Rightarrow> link_payload \<Rightarrow> link_payload" where
  "with_password pw p = (if js_trim pw \<noteq> [] then p\<lparr>lp_password := Some (js_trim pw)\<rparr> else p)"

subsection \<open>UploadManager: handleCreateDownloadLink\<close>

definition um_build_payload :: "platform \<Rightarrow> um_state \<Rightarrow> built" where
  "um_build_payload pf st =
     (if um_linkNoExpiry st
      then Built ((with_password (um_linkPassword st) (empty_payload\<lparr>lp_no_expiry := Some True\<rparr>))
                    \<lparr>lp_require_download_page := Some (um_linkRequirePage st),
                     lp_create_short_link := Some (um_linkCreateShort st)\<rparr>)
      else if um_linkExpiresAt st \<noteq> []
      then (case pf_toISOString pf (um_linkExpiresAt st) of
              None \<Rightarrow> Threw (RangeError ''Invalid time value'')
            | Some isoString \<Rightarrow>
                Built ((with_password (um_linkPassword st) (empty_payload\<lparr>lp_expires_at := Some isoString\<rparr>))
                         \<lparr>lp_require_download_page := Some (um_linkRequirePage st),
                          lp_create_short_link := Some (um_linkCreateShort st)\<rparr>))
      else MissingExpiry)"

text \<open>\<open>buildAbsoluteUrl\<close>, with the memoised \<open>baseDownloadUrl\<close> as a parameter.\<close>

definition has_http_scheme :: "string \<Rightarrow> bool" where
  "has_http_scheme u = (starts_with (to_lower u) ''http://'' \<or> starts_with (to_lower u) ''https://'')"

definition buildAbsoluteUrl :: "string \<Rightarrow> string option \<Rightarrow> string option" where
  "buildAbsoluteUrl baseDownloadUrl pathOrUrl =
     (case pathOrUrl of
        None \<Rightarrow> None
      | Some u \<Rightarrow>
          if u = [] then None
          else if has_http_scheme u then Some u
          else Some (if baseDownloadUrl \<noteq> [] then baseDownloadUrl @ u else u))"

text \<open>
  The links that UploadManager shows for a created link: the long path, the primary link
  and the fallback link.
\<close>

definition um_needsDownloadPage :: "api_link \<Rightarrow> bool" where
  "um_needsDownloadPage result = (l_require_download_page result \<or> l_has_password result)"

definition um_share_page :: "platform \<Rightarrow> string \<Rightarrow> js_file option \<Rightarrow> api_link \<Rightarrow> string" where
  "um_share_page pf fileId fo result =
     (let tokenParam = (case pf_get_token pf (query_of_url (l_url result)) of
                          None \<Rightarrow> [] | Some t \<Rightarrow> t)
      in ''/share-download/'' @ fileId @ ''?token='' @ pf_encodeURIComponent pf tokenParam
           @ (case fo of None \<Rightarrow> [] | Some f \<Rightarrow> ''&name='' @ pf_encodeURIComponent pf (file_name f)))"

definition um_downloadPath :: "platform \<Rightarrow> string \<Rightarrow> js_file option \<Rightarrow> api_link \<Rightarrow> string" where
  "um_downloadPath pf fileId fo result =
     (if um_needsDownloadPage result then um_share_page pf fileId fo result else l_url result)"

definition um_links ::
  "platform \<Rightarrow> string \<Rightarrow> string \<Rightarrow> js_file option \<Rightarrow> api_link \<Rightarrow> string option \<times> string option" where
  "um_links pf baseDownloadUrl fileId fo result =
     (let downloadPath = um_downloadPath pf fileId fo result;
          primaryPath = (case l_short_url result of None \<Rightarrow> downloadPath | Some s \<Rightarrow> s);
          absolutePrimary = buildAbsoluteUrl baseDownloadUrl (Some primaryPath);
          absoluteFallback = (if truthy (l_short_url result)
                              then buildAbsoluteUrl baseDownloadUrl (Some downloadPath) else None)
      in (absolutePrimary, absoluteFallback))"

text \<open>
  The handler. \<open>api\<close> is the server behind \<open>createDownloadLink\<close>. The result is the
  new state, the requests sent (file id and payload) and the number of
  \<open>onUploadComplete\<close> calls.
\<close>

definition handleCreateDownloadLink ::
  "platform \<Rightarrow> string \<Rightarrow> (string \<Rightarrow> link_payload \<Rightarrow> js_error + api_link) \<Rightarrow> um_state \<Rightarrow>
   um_state \<times> (string \<times> link_payload) list \<times> nat" where
  "handleCreateDownloadLink pf baseDownloadUrl api st =
     (case um_fileId st of
        None \<Rightarrow> (st, [], 0)
      | Some fileId \<Rightarrow>
          (case um_build_payload pf st of
             MissingExpiry \<Rightarrow> (st\<lparr>um_linkFormError := Some ExpiryRequiredUM\<rparr>, [], 0)
           | Threw err \<Rightarrow> (st\<lparr>um_error := Some LinkCreateFailedUM\<rparr>, [], 0)
           | Built payload \<Rightarrow>
               (let st1 = st\<lparr>um_linkFormError := None, um_copyMessage := None\<rparr>
                in case api fileId payload of
                     Inl err \<Rightarrow> (st1\<lparr>um_error := Some LinkCreateFailedUM\<rparr>, [(fileId, payload)], 0)
                   | Inr result \<Rightarrow>
                       (case um_links pf baseDownloadUrl fileId (um_file st) result of
                          (absolutePrimary, absoluteFallback) \<Rightarrow>
                            (st1\<lparr>um_downloadLink := absolutePrimary,
                                 um_downloadFallbackLink := absoluteFallback,
                                 um_copyMessage := None, um_linkPassword := []\<rparr>,
                             [(fileId, payload)], 1)))))"

subsection \<open>FileManager: handleCreateLink and the link list\<close>

record link_form =
  lf_expiresAt :: string
  lf_noExpiry :: bool
  lf_requireDownloadPage :: bool
  lf_createShortLink :: bool
  lf_password :: string

definition createDefaultFormState :: link_form where
  "createDefaultFormState =
     \<lparr> lf_expiresAt = [], lf_noExpiry = False, lf_requireDownloadPage = False,
       lf_createShortLink = False, lf_password = [] \<rparr>"

record fm_state =
  fm_pending :: "string option"
  fm_linkForms :: "string \<rightharpoonup> link_form"
  fm_formErrors :: "string \<rightharpoonup> ui_text option"

definition fm_form :: "fm_state \<Rightarrow> string \<Rightarrow> link_form" where
  "fm_form st fileId =
     (case fm_linkForms st fileId of None \<Rightarrow> createDefaultFormState | Some form \<Rightarrow> form)"

definition fm_build_payload :: "platform \<Rightarrow> link_form \<Rightarrow> built" where
  "fm_build_payload pf form =
     (if \<not> lf_noExpiry form \<and> lf_expiresAt form = [] then MissingExpiry
      else if lf_noExpiry form
      then Built ((with_password (lf_password form) (empty_payload\<lparr>lp_no_expiry := Some True\<rparr>))
                    \<lparr>lp_require_download_page := Some (lf_requireDownloadPage form),
                     lp_create_short_link := Some (lf_createShortLink form)\<rparr>)
      else if lf_expiresAt form \<noteq> []
      then (case pf_toISOString pf (lf_expiresAt form) of
              None \<Rightarrow> Threw (RangeError ''Invalid time value'')
            | Some isoString \<Rightarrow>
                Built ((with_password (lf_password form) (empty_payload\<lparr>lp_expires_at := Some isoString\<rparr>))
                         \<lparr>lp_require_download_page := Some (lf_requireDownloadPage form),
                          lp_create_short_link := Some (lf_createShortLink form)\<rparr>))
      else Built ((with_password (lf_password form) empty_payload)
                    \<lparr>lp_require_download_page := Some (lf_requireDownloadPage form),
                     lp_create_short_link := Some (lf_createShortLink form)\<rparr>))"

definition resetFormState :: "string \<Rightarrow> fm_state \<Rightarrow> fm_state" where
  "resetFormState fileId st =
     st\<lparr>fm_linkForms := (fm_linkForms st)(fileId \<mapsto> createDefaultFormState),
        fm_formErrors := (fm_formErrors st)(fileId \<mapsto> None)\<rparr>"

text \<open>
  The handler. The result is the new state, the requests sent, the number of
  \<open>onRefresh\<close> calls, and the error with which the handler itself rejects, if any
  (the date conversion stands outside its \<open>try\<close>).
\<close>

definition handleCreateLink ::
  "platform \<Rightarrow> (string \<Rightarrow> link_payload \<Rightarrow> js_error + api_link) \<Rightarrow> string \<Rightarrow> fm_state \<Rightarrow>
   fm_state \<times> (string \<times> link_payload) list \<times> nat \<times> js_error option" where
  "handleCreateLink pf api fileId st =
     (case fm_build_payload pf (fm_form st fileId) of
        MissingExpiry \<Rightarrow>
          (st\<lparr>fm_formErrors := (fm_formErrors st)(fileId \<mapsto> Some ExpiryRequiredFM)\<rparr>, [], 0, None)
      | Threw err \<Rightarrow> (st, [], 0, Some err)
      | Built payload \<Rightarrow>
          (let st1 = st\<lparr>fm_pending := Some fileId,
                        fm_formErrors := (fm_formErrors st)(fileId \<mapsto> None)\<rparr>
           in case api fileId payload of
                Inr result \<Rightarrow>
                  ((resetFormState fileId st1)\<lparr>fm_pending := None\<rparr>, [(fileId, payload)], 1, None)
              | Inl err \<Rightarrow>
                  (st1\<lparr>fm_formErrors := (fm_formErrors st1)(fileId \<mapsto>
                          Some (if error_message err \<noteq> [] then Message (error_message err)
                                else LinkCreateFailedFM)),
                       fm_pending := None\<rparr>,
                   [(fileId, payload)], 0, None)))"




section \<open>Concrete inputs\<close>

text \<open>Small files, sessions and answers of the server, on which the theorems below are run.\<close>

definition demo_file :: js_file where
  "demo_file = \<lparr> file_name = ''a.bin'', file_type = ''application/octet-stream'',
                 file_bytes = [1, 2, 3, 4, 5, 6, 7] \<rparr>"

definition big_file :: js_file where
  "big_file = \<lparr> file_name = ''big.bin'', file_type = ''application/octet-stream'',
                 file_bytes = replicate 26214400 0 \<rparr>"

text \<open>A run of three chunks in which every request succeeds, and one of six chunks under way.\<close>

definition demo_digest :: "byte list \<Rightarrow> byte list" where
  "demo_digest bs = [of_nat (length bs), 255]"

definition demo_ctx :: upload_ctx where
  "demo_ctx = \<lparr> cx_api_base = ''/api'', cx_token = ''tok'', cx_session = ''s1'',
                cx_file = demo_file, cx_chunk_size = 3, cx_digest = demo_digest \<rparr>"

definition ok_response :: fetch_result where
  "ok_response = Response \<lparr> rs_status = 200, rs_headers = [], rs_text = ''{}'' \<rparr>"

definition fail_response :: fetch_result where
  "fail_response = Response \<lparr> rs_status = 500, rs_headers = [], rs_text = ''boom'' \<rparr>"

definition demo_events :: "event list" where
  "demo_events =
     [DigestResolved 1 ''u1'', DigestResolved 0 ''u0'', FetchSettled 1 ok_response,
      DigestResolved 2 ''u2'', FetchSettled 0 ok_response, FetchSettled 2 ok_response]"

definition six_events :: "event list" where
  "six_events =
     [DigestResolved 0 ''a'', DigestResolved 1 ''b'', DigestResolved 2 ''c'',
      DigestResolved 3 ''d'', FetchSettled 2 ok_response, DigestResolved 2 ''e'',
      FetchSettled 0 ok_response]"

text \<open>
  A component with the seven-byte file selected and a chunk size of three, and the servers
  it meets: one whose probe reports every chunk received and none missing, one whose probe
  reports chunks 1 and 2 missing, and one that answers the PUT of chunk 0 with status 500.
\<close>

definition demo_state :: um_state where
  "demo_state =
     \<lparr> um_file = Some demo_file, um_chunkSize = 3, um_status = StFileReady,
       um_sessionId = None, um_fileId = None, um_progressPercent = 0,
       um_downloadLink = None, um_downloadFallbackLink = None, um_error = None,
       um_copyMessage = None, um_finalizing = False, um_linkExpiresAt = [],
       um_linkNoExpiry = False, um_linkRequirePage = False, um_linkCreateShort = False,
       um_linkPassword = [], um_linkFormError = None \<rparr>"

definition demo_session :: upload_session where
  "demo_session =
     \<lparr> us_upload_session_id = ''s1'', us_accepted_chunk_size = 3,
       us_expires_at = ''2030-01-01T00:00:00Z'' \<rparr>"

definition status_answer :: "int list \<Rightarrow> int list \<Rightarrow> string \<Rightarrow> session_status" where
  "status_answer rcv mis st = \<lparr> st_received = rcv, st_missing = mis, st_status = st \<rparr>"

definition demo_finalized :: finalize_result where
  "demo_finalized =
     \<lparr> fr_upload_session_id = ''s1'', fr_file_id = Some ''f1'', fr_status = ''completed'' \<rparr>"

definition env_all_received :: upload_env where
  "env_all_received =
     \<lparr> env_create = (\<lambda>p. Inr demo_session),
       env_probe = Inr (status_answer [0, 1, 2] [] ''uploading''),
       env_events = demo_events,
       env_finalize = Inr demo_finalized,
       env_status = (\<lambda>n. Inr (status_answer [0, 1, 2] [] ''completed'')) \<rparr>"

definition resume_events :: "event list" where
  "resume_events =
     [DigestResolved 0 ''a'', DigestResolved 1 ''b'', FetchSettled 1 ok_response,
      FetchSettled 0 ok_response]"

definition env_resume :: upload_env where
  "env_resume =
     \<lparr> env_create = (\<lambda>p. Inr demo_session),
       env_probe = Inr (status_answer [0] [1, 2] ''uploading''),
       env_events = resume_events,
       env_finalize = Inr demo_finalized,
       env_status = (\<lambda>n. Inr (status_answer [0, 1, 2] [] ''completed'')) \<rparr>"

definition failing_events :: "event list" where
  "failing_events = [DigestResolved 0 ''u0'', FetchSettled 0 fail_response]"

definition one_put_state :: pool where
  "one_put_state = run_events demo_ctx [DigestResolved 0 ''u0''] (start_pool [0, 1, 2] 0)"

definition env_chunk_fails :: upload_env where
  "env_chunk_fails =
     \<lparr> env_create = (\<lambda>p. Inr demo_session),
       env_probe = Inr (status_answer [] [0, 1, 2] ''init''),
       env_events = failing_events,
       env_finalize = Inr demo_finalized,
       env_status = (\<lambda>n. Inr (status_answer [0, 1, 2] [] ''completed'')) \<rparr>"

text \<open>
  A finalize that answers \<open>processing\<close>, a session that then stays \<open>failed\<close>, one that
  completes at the third status request, and one whose second status request fails.
\<close>

definition processing_result :: finalize_result where
  "processing_result =
     \<lparr> fr_upload_session_id = ''s1'', fr_file_id = None, fr_status = ''processing'' \<rparr>"

definition always_failed :: "nat \<Rightarrow> js_error + session_status" where
  "always_failed n = Inr (status_answer [0, 1, 2] [] ''failed'')"

definition completes_third :: "nat \<Rightarrow> js_error + session_status" where
  "completes_third n =
     Inr (status_answer [0, 1, 2] [] (if n < 2 then ''finalizing'' else ''completed''))"

definition second_poll_fails :: "nat \<Rightarrow> js_error + session_status" where
  "second_poll_fails n =
     (if n = 1 then Inl (Error ''Request failed (502)'')
      else Inr (status_answer [0, 1, 2] [] ''finalizing''))"

definition env_never_completes :: upload_env where
  "env_never_completes =
     \<lparr> env_create = (\<lambda>p. Inr demo_session),
       env_probe = Inr (status_answer [] [0, 1, 2] ''init''),
       env_events = demo_events,
       env_finalize = Inr processing_result,
       env_status = always_failed \<rparr>"

text \<open>
  A server for \<open>apiFetch\<close> with seven answers: not found, a failure without a body, no
  content, a JSON body, a plain text, an ok answer that announces JSON and has an empty
  body, and an ok answer with two \<open>Content-Type\<close> headers; and a JSON parser that knows
  the empty array (no JSON parser accepts the empty text).
\<close>

definition answer_not_found :: http_response where
  "answer_not_found = \<lparr> rs_status = 404, rs_headers = [], rs_text = ''not found'' \<rparr>"

definition answer_failure :: http_response where
  "answer_failure = \<lparr> rs_status = 500, rs_headers = [], rs_text = [] \<rparr>"

definition answer_no_content :: http_response where
  "answer_no_content = \<lparr> rs_status = 204, rs_headers = [], rs_text = [] \<rparr>"

definition answer_json :: http_response where
  "answer_json =
     \<lparr> rs_status = 200, rs_headers = [(''content-type'', ''application/json; charset=utf-8'')],
       rs_text = ''[]'' \<rparr>"

definition answer_text :: http_response where
  "answer_text =
     \<lparr> rs_status = 200, rs_headers = [(''Content-Type'', ''text/plain'')], rs_text = ''hello'' \<rparr>"

definition answer_empty_json :: http_response where
  "answer_empty_json =
     \<lparr> rs_status = 200, rs_headers = [(''Content-Type'', ''application/json'')], rs_text = [] \<rparr>"

definition answer_two_types :: http_response where
  "answer_two_types =
     \<lparr> rs_status = 200,
       rs_headers = [(''Content-Type'', ''text/plain''), (''content-type'', ''application/json'')],
       rs_text = ''[]'' \<rparr>"

definition demo_fetch :: "http_request \<Rightarrow> fetch_result" where
  "demo_fetch rq =
     (if rq_url rq = ''/api/a'' then Response answer_not_found
      else if rq_url rq = ''/api/b'' then Response answer_failure
      else if rq_url rq = ''/api/c'' then Response answer_no_content
      else if rq_url rq = ''/api/d'' then Response answer_json
      else if rq_url rq = ''/api/f'' then Response answer_empty_json
      else if rq_url rq = ''/api/g'' then Response answer_two_types
      else Response answer_text)"

definition demo_json_parse :: "string \<Rightarrow> string + nat list" where
  "demo_json_parse s = (if s = ''[]'' then Inr [] else Inl ''Unexpected end of JSON input'')"

definition get_options :: request_init where
  "get_options = \<lparr> ri_method = Some ''GET'', ri_headers = [], ri_body = NoBody \<rparr>"

text \<open>
  Stand-ins for the platform functions, three links (a plain one, a protected one with a
  short URL, and one whose short URL is the empty string), a server that creates links, and
  link forms: one with the never-expires option, one with an expiry, one with neither.
\<close>

definition demo_platform :: platform where
  "demo_platform =
     \<lparr> pf_toISOString = (\<lambda>s. if s = ''2030-01-01T09:00'' then Some ''2030-01-01T00:00:00.000Z''
                               else None),
       pf_get_token = (\<lambda>q. if starts_with q ''token='' then Some (drop 6 q) else None),
       pf_encodeURIComponent = (\<lambda>s. s) \<rparr>"

definition plain_link :: api_link where
  "plain_link =
     \<lparr> l_id = ''l1'', l_url = ''/d/f1?token=abc'', l_expires_at = None, l_download_count = 0,
       l_never_expires = True, l_require_download_page = False, l_has_password = False,
       l_short_url = None \<rparr>"

definition protected_short_link :: api_link where
  "protected_short_link =
     \<lparr> l_id = ''l2'', l_url = ''/d/f1?token=xyz'', l_expires_at = Some ''2030-01-01T00:00:00Z'',
       l_download_count = 0, l_never_expires = False, l_require_download_page = False,
       l_has_password = True, l_short_url = Some ''/s/Ab3'' \<rparr>"


definition demo_api :: "string \<Rightarrow> link_payload \<Rightarrow> js_error + api_link" where
  "demo_api fileId payload =
     (if lp_password payload = None then Inr plain_link else Inr protected_short_link)"

definition finished_state :: um_state where
  "finished_state = demo_state\<lparr>um_status := StUploadComplete, um_fileId := Some ''f1''\<rparr>"

definition no_expiry_form :: link_form where
  "no_expiry_form = createDefaultFormState\<lparr>lf_noExpiry := True\<rparr>"

definition dated_form :: link_form where
  "dated_form = createDefaultFormState\<lparr>lf_expiresAt := ''2030-01-01T09:00'', lf_password := '' pw12 ''\<rparr>"

definition fm_with :: "link_form \<Rightarrow> fm_state" where
  "fm_with form = \<lparr> fm_pending = None, fm_linkForms = [''f1'' \<mapsto> form], fm_formErrors = Map.empty \<rparr>"


section \<open>The chunk partition\<close>

text \<open>On natural numbers, a chunk is a \<open>take\<close> of a \<open>drop\<close>.\<close>

lemma blob_slice_nat:
  "blob_slice bs (int a) (int b) = take (min b (length bs) - a) (drop a bs)"
proof (cases "a \<le> length bs")
  case True
  then have "nat (max (min (int b) (int (length bs)) - min (int a) (int (length bs))) 0) = min b (length bs) - a"
    by (auto simp: min_def max_def)
  with True show ?thesis by (simp add: blob_slice_def Let_def min_def)
next
  case False
  then show ?thesis by (simp add: blob_slice_def Let_def min_def)
qed

lemma chunk_blob_nat:
  "chunk_blob f (int c) (int i) = take c (drop (i * c) (file_bytes f))"
proof -
  have h: "int i * int c + int c = int (i * c + c)" by simp
  have e: "min (int i * int c + int c) (int (length (file_bytes f))) = int (min (i * c + c) (length (file_bytes f)))"
    by (simp only: h of_nat_min)
  have "chunk_blob f (int c) (int i) = blob_slice (file_bytes f) (int (i * c)) (int (min (i * c + c) (length (file_bytes f))))"
    unfolding chunk_blob_def Let_def file_size_def e by simp
  also have "\<dots> = take (min (i * c + c) (length (file_bytes f)) - i * c) (drop (i * c) (file_bytes f))"
    by (simp only: blob_slice_nat min.idem min.assoc)
  also have "\<dots> = take c (drop (i * c) (file_bytes f))"
    by (cases "i * c + c \<le> length (file_bytes f)") (simp_all add: min_def)
  finally show ?thesis .
qed

lemma concat_chunks_take:
  "concat (map (\<lambda>i. take c (drop (i * c) xs)) [0..<n]) = take (n * c) xs"
proof (induction n)
  case 0
  show ?case by simp
next
  case (Suc n)
  have "take (n * c) xs @ take c (drop (n * c) xs) = take (n * c + c) xs"
    by (simp add: take_add)
  with Suc show ?case by (simp add: add.commute)
qed

lemma take_drop_nth:
  "take c (drop a xs) = map (\<lambda>k. xs ! k) [a ..< min (a + c) (length xs)]"
proof -
  have "take c (drop a xs) = take c (drop a (map (\<lambda>k. xs ! k) [0..<length xs]))"
    by (simp add: map_nth)
  also have "\<dots> = map (\<lambda>k. xs ! k) (take c [a..<length xs])"
    by (simp add: take_map drop_map)
  also have "take c [a..<length xs] = [a ..< min (a + c) (length xs)]"
    by (cases "a + c \<le> length xs") (simp_all add: min_def)
  finally show ?thesis .
qed

lemma ceil_div_bounds:
  fixes a c :: int
  assumes "0 < c" "0 \<le> a"
  shows "0 \<le> - ((- a) div c)" and "a \<le> - ((- a) div c) * c" and "(- ((- a) div c) - 1) * c < a"
proof -
  have m: "(- a) div c * c + (- a) mod c = - a" by simp
  have r: "0 \<le> (- a) mod c" "(- a) mod c < c" using assms by simp_all
  show "0 \<le> - ((- a) div c)" using assms by (simp add: div_nonpos_pos_le0)
  show "a \<le> - ((- a) div c) * c" using m r by linarith
  have "(- ((- a) div c) - 1) * c = - ((- a) div c * c) - c" by (simp add: algebra_simps)
  then show "(- ((- a) div c) - 1) * c < a" using m r by linarith
qed

text \<open>
  C1. For every file and every positive chunk size, the chunks are a function of the file
  and the chunk size alone; \<open>total\<close> is a natural number \<open>n\<close>; chunk \<open>i\<close> (for
  \<open>i < n\<close>) is the run of file bytes from position \<open>i * chunkSize\<close> up to, not
  including, \<open>min ((i + 1) * chunkSize) file.size\<close>; every chunk but the last has
  exactly \<open>chunkSize\<close> bytes; and the chunks \<open>0, ..., n - 1\<close> concatenated in
  ascending order are the file, byte for byte.
\<close>

theorem chunk_partition:
  assumes "0 < chunkSize"
  shows "\<exists>n. total_chunks f chunkSize = Finite (int n) \<and>
     (\<forall>i<n. chunk_blob f chunkSize (int i) =
        map (\<lambda>k. file_bytes f ! k)
          [nat (int i * chunkSize) ..< nat (min ((int i + 1) * chunkSize) (file_size f))]) \<and>
     (\<forall>i. Suc i < n \<longrightarrow> int (length (chunk_blob f chunkSize (int i))) = chunkSize) \<and>
     concat (map (\<lambda>i. chunk_blob f chunkSize (int i)) [0..<n]) = file_bytes f"
proof -
  define c where "c = nat chunkSize"
  define xs where "xs = file_bytes f"
  define n where "n = nat (- ((- file_size f) div chunkSize))"
  have cs: "chunkSize = int c" and cpos: "0 < c" using assms by (simp_all add: c_def)
  have sz: "file_size f = int (length xs)" by (simp add: file_size_def xs_def)
  have b: "0 \<le> - ((- file_size f) div chunkSize)" "file_size f \<le> - ((- file_size f) div chunkSize) * chunkSize"
    "(- ((- file_size f) div chunkSize) - 1) * chunkSize < file_size f"
    using ceil_div_bounds [of chunkSize "file_size f"] assms by (simp_all add: file_size_def)
  have n_int: "int n = - ((- file_size f) div chunkSize)" using b(1) by (simp add: n_def)
  have tot: "total_chunks f chunkSize = Finite (int n)"
    using assms by (simp add: total_chunks_def Math_ceil_div_def n_int)
  have cover: "length xs \<le> n * c"
  proof -
    have "int (length xs) \<le> int (n * c)" using b(2) by (simp add: n_int cs sz)
    then show ?thesis by linarith
  qed
  have below: "Suc i < n \<Longrightarrow> i * c + c \<le> length xs" for i
  proof -
    assume "Suc i < n"
    then have "int i + 1 \<le> int n - 1" by linarith
    then have "(int i + 1) * int c \<le> (int n - 1) * int c" using cpos by (simp add: mult_right_mono)
    also have "\<dots> < int (length xs)" using b(3) by (simp add: n_int cs sz)
    finally have "int (i * c + c) < int (length xs)" by (simp add: algebra_simps)
    then show ?thesis by linarith
  qed
  have ch: "chunk_blob f chunkSize (int i) = take c (drop (i * c) xs)" for i
    by (simp add: cs chunk_blob_nat xs_def)
  have p1: "\<forall>i<n. chunk_blob f chunkSize (int i) =
        map (\<lambda>k. file_bytes f ! k)
          [nat (int i * chunkSize) ..< nat (min ((int i + 1) * chunkSize) (file_size f))]"
  proof (intro allI impI)
    fix i
    have "nat (int i * chunkSize) = i * c" by (simp add: cs flip: of_nat_mult)
    moreover have "nat (min ((int i + 1) * chunkSize) (file_size f)) = min (i * c + c) (length xs)"
    proof -
      have h: "(int i + 1) * chunkSize = int (i * c + c)" by (simp add: cs algebra_simps)
      have "min ((int i + 1) * chunkSize) (file_size f) = int (min (i * c + c) (length xs))"
        by (simp only: h sz of_nat_min)
      then show ?thesis by (simp only: nat_int)
    qed
    ultimately show "chunk_blob f chunkSize (int i) =
        map (\<lambda>k. file_bytes f ! k)
          [nat (int i * chunkSize) ..< nat (min ((int i + 1) * chunkSize) (file_size f))]"
      using take_drop_nth [of c "i * c" xs] by (simp add: ch xs_def)
  qed
  have p2: "\<forall>i. Suc i < n \<longrightarrow> int (length (chunk_blob f chunkSize (int i))) = chunkSize"
  proof (intro allI impI)
    fix i
    assume "Suc i < n"
    then have "i * c + c \<le> length xs" by (rule below)
    then have "length (take c (drop (i * c) xs)) = c" by simp
    then have "length (chunk_blob f chunkSize (int i)) = c" by (simp only: ch)
    then show "int (length (chunk_blob f chunkSize (int i))) = chunkSize"
      by (simp only: cs)
  qed
  have p3: "concat (map (\<lambda>i. chunk_blob f chunkSize (int i)) [0..<n]) = file_bytes f"
    using cover by (simp add: ch concat_chunks_take xs_def)
  from tot p1 p2 p3 show ?thesis by blast
qed

theorem chunk_partition_witness:
  "(0::int) < 3 \<and> total_chunks demo_file 3 = Finite 3 \<and>
   map (\<lambda>i. chunk_blob demo_file 3 (int i)) [0..<3] = [[1, 2, 3], [4, 5, 6], [7]] \<and>
   (\<exists>n. total_chunks demo_file 3 = Finite (int n) \<and>
     (\<forall>i<n. chunk_blob demo_file 3 (int i) =
        map (\<lambda>k. file_bytes demo_file ! k)
          [nat (int i * 3) ..< nat (min ((int i + 1) * 3) (file_size demo_file))]) \<and>
     (\<forall>i. Suc i < n \<longrightarrow> int (length (chunk_blob demo_file 3 (int i))) = 3) \<and>
     concat (map (\<lambda>i. chunk_blob demo_file 3 (int i)) [0..<n]) = file_bytes demo_file)"
  (is "_ \<and> _ \<and> _ \<and> ?E")
proof -
  have p: "(0::int) < 3" by simp
  have e: ?E by (rule chunk_partition [OF p])
  have t: "total_chunks demo_file 3 = Finite 3"
    by (simp add: total_chunks_def Math_ceil_div_def file_size_def demo_file_def)
  have c: "map (\<lambda>i. chunk_blob demo_file 3 (int i)) [0..<3] = [[1, 2, 3], [4, 5, 6], [7]]"
    by (simp add: chunk_blob_def blob_slice_def file_size_def demo_file_def Let_def
        upt_conv_Cons)
  show ?thesis by (intro conjI; fact)
qed

section \<open>The chunk count of the session-create request\<close>

text \<open>
  C4. The \<open>total_chunks\<close> that \<open>handleUpload\<close> puts into the session-create payload
  is the ceiling of \<open>size / chunkSize\<close> (for every file and every chunk size other than
  zero, where the quotient is a number); a file of 25 MiB with chunks of 8 MiB gives 4.
\<close>

theorem total_chunks_is_ceiling:
  "(chunkSize \<noteq> 0 \<longrightarrow>
      p_total_chunks (session_create_payload f chunkSize fileHash)
        = Finite (spec_total_chunks (file_size f) chunkSize)) \<and>
   (file_size g = 25 * 1024 * 1024 \<longrightarrow>
      p_total_chunks (session_create_payload g (8 * 1024 * 1024) fileHash) = Finite 4)"
  by (simp add: session_create_payload_def total_chunks_def Math_ceil_div_def
      spec_total_chunks_def ceiling_divide_eq_div)

theorem total_chunks_is_ceiling_witness:
  "((3::int) \<noteq> 0 \<and>
      p_total_chunks (session_create_payload demo_file 3 ''ab'') = Finite 3) \<and>
   (file_size big_file = 25 * 1024 * 1024 \<and>
      p_total_chunks (session_create_payload big_file (8 * 1024 * 1024) ''ab'') = Finite 4)"
  using total_chunks_is_ceiling [of 3 demo_file "''ab''" big_file]
  by (simp add: spec_total_chunks_def file_size_def demo_file_def big_file_def)

section \<open>The worker pool keeps its invariant\<close>

lemma distinct_mset_subseteq:
  assumes "distinct ys" "mset xs \<subseteq># mset ys"
  shows "distinct xs"
proof -
  have "count (mset xs) a \<le> 1" for a
  proof -
    have "count (mset xs) a \<le> count (mset ys) a" using assms(2) by (simp add: mset_subset_eq_count)
    also have "\<dots> \<le> 1" using assms(1) by (simp add: distinct_count_atmost_1)
    finally show ?thesis .
  qed
  then show ?thesis
    by (metis count_mset_0_iff distinct_count_atmost_1 le_neq_implies_less less_one)
qed

lemma concat_map_update:
  "w < length ws \<Longrightarrow>
   mset (concat (map f (ws[w := x]))) + mset (f (ws ! w)) = mset (concat (map f ws)) + mset (f x)"
proof (induction ws arbitrary: w)
  case Nil
  then show ?case by simp
next
  case (Cons a ws)
  show ?case
  proof (cases w)
    case 0
    then show ?thesis by simp
  next
    case (Suc v)
    with Cons.prems have "v < length ws" by simp
    from Cons.IH [OF this] Suc show ?thesis by (simp add: ac_simps)
  qed
qed

lemma hashing_update:
  "w < length (workers s) \<Longrightarrow>
   mset (concat (map hashing_index ((workers s)[w := x]))) + mset (hashing_index (workers s ! w))
     = mset (hashing_indices s) + mset (hashing_index x)"
  unfolding hashing_indices_def by (rule concat_map_update)

lemma worker_loop_length [simp]: "length (workers (worker_loop w s)) = length (workers s)"
  by (simp add: worker_loop_def split: list.split)

lemma step_length [simp]: "length (workers (step cx ev s)) = length (workers s)"
  by (cases ev) (auto simp: worker_throws_def split: worker.split sum.split)

lemma run_events_length [simp]: "length (workers (run_events cx evs s)) = length (workers s)"
  by (induction evs arbitrary: s) simp_all

lemma in_set_update: "y \<in> set (ws[w := x]) \<Longrightarrow> y = x \<or> y \<in> set ws"
  using set_update_subset_insert [of ws w x] by auto

lemma worker_loop_inv:
  assumes inv: "run_inv q s" and w: "w < length (workers s)"
    and nh: "hashing_index (workers s ! w) = []"
  shows "run_inv q (worker_loop w s)"
proof (cases "uploadQueue s")
  case Nil
  have h: "mset (concat (map hashing_index ((workers s)[w := Finished]))) = mset (hashing_indices s)"
    using hashing_update [OF w, of Finished] nh by simp
  show ?thesis
    using inv Nil h
    by (auto simp: run_inv_def worker_loop_def hashing_indices_def put_indices_def
        dest!: in_set_update)
next
  case (Cons j rest)
  have h: "mset (concat (map hashing_index ((workers s)[w := Hashing j])))
             = add_mset j (mset (hashing_indices s))"
    using hashing_update [OF w, of "Hashing j"] nh by simp
  show ?thesis
    using inv Cons h w
    by (auto simp: run_inv_def worker_loop_def hashing_indices_def put_indices_def
        dest!: in_set_update)
qed

lemma uploaded_inv: "run_inv q (s\<lparr>uploaded := n\<rparr>) = run_inv q s"
  by (simp add: run_inv_def hashing_indices_def put_indices_def)

lemma worker_throws_inv:
  assumes inv: "run_inv q s" and w: "w < length (workers s)"
  shows "run_inv q (worker_throws w e s)"
proof -
  have h: "mset (concat (map hashing_index ((workers s)[w := Crashed e])))
             + mset (hashing_index (workers s ! w)) = mset (hashing_indices s)"
    using hashing_update [OF w, of "Crashed e"] by simp
  then have "mset (concat (map hashing_index ((workers s)[w := Crashed e]))) \<subseteq># mset (hashing_indices s)"
    by (metis mset_subset_eq_add_left)
  then have "mset (put_indices s) + mset (concat (map hashing_index ((workers s)[w := Crashed e])))
      \<subseteq># mset (map snd (claims s))"
    using inv unfolding run_inv_def
    by (meson subset_mset.add_left_mono subset_mset.order_trans)
  then show ?thesis
    using inv
    by (auto simp: run_inv_def worker_throws_def hashing_indices_def put_indices_def
        split: option.split dest!: in_set_update)
qed

lemma step_inv:
  assumes inv: "run_inv q s"
  shows "run_inv q (step cx ev s)"
proof (cases ev)
  case (DigestResolved w uuid)
  show ?thesis
  proof (cases "w < length (workers s)")
    case False
    with inv DigestResolved show ?thesis by simp
  next
    case True
    show ?thesis
    proof (cases "workers s ! w")
      case (Hashing i)
      have h: "add_mset i (mset (concat (map hashing_index ((workers s)[w := Uploading i]))))
                 = mset (hashing_indices s)"
        using hashing_update [OF True, of "Uploading i"] Hashing by simp
      have e: "mset (put_indices (s\<lparr>workers := (workers s)[w := Uploading i],
                  puts := puts s @ [(i, uuid, chunk_request cx i uuid)]\<rparr>))
               + mset (hashing_indices (s\<lparr>workers := (workers s)[w := Uploading i],
                  puts := puts s @ [(i, uuid, chunk_request cx i uuid)]\<rparr>))
             = mset (put_indices s) + mset (hashing_indices s)"
        using h by (simp add: put_indices_def hashing_indices_def flip: h)
      show ?thesis
        using inv True Hashing DigestResolved e
        by (auto simp: run_inv_def dest!: in_set_update)
    qed (use inv True DigestResolved in simp_all)
  qed
next
  case (DigestRejected w e)
  show ?thesis
  proof (cases "w < length (workers s)")
    case False
    with inv DigestRejected show ?thesis by simp
  next
    case True
    with inv DigestRejected show ?thesis
      by (cases "workers s ! w") (simp_all add: worker_throws_inv)
  qed
next
  case (FetchSettled w r)
  show ?thesis
  proof (cases "w < length (workers s)")
    case False
    with inv FetchSettled show ?thesis by simp
  next
    case True
    show ?thesis
    proof (cases "workers s ! w")
      case (Uploading i)
      show ?thesis
      proof (cases "uploadChunk_response r")
        case (Inl e)
        with inv True Uploading FetchSettled show ?thesis by (simp add: worker_throws_inv)
      next
        case (Inr u)
        have "run_inv q (worker_loop w (s\<lparr>uploaded := uploaded s + 1\<rparr>))"
          by (rule worker_loop_inv) (use inv True Uploading in \<open>simp_all add: uploaded_inv\<close>)
        with True Uploading FetchSettled Inr show ?thesis by simp
      qed
    qed (use inv True FetchSettled in simp_all)
  qed
qed

lemma run_events_inv: "run_inv q s \<Longrightarrow> run_inv q (run_events cx evs s)"
  by (induction evs arbitrary: s) (simp_all add: step_inv)

subsection \<open>The start of the pool\<close>

lemma start_worker_inv:
  assumes inv: "run_inv q s"
  shows "run_inv q (worker_loop (length (workers s)) (s\<lparr>workers := workers s @ [Finished]\<rparr>))"
proof (cases "uploadQueue s")
  case Nil
  with inv show ?thesis
    by (auto simp: run_inv_def worker_loop_def hashing_indices_def put_indices_def less_Suc_eq)
next
  case (Cons j rest)
  with inv show ?thesis
    by (auto simp: run_inv_def worker_loop_def hashing_indices_def put_indices_def less_Suc_eq)
qed

lemma start_workers_inv: "run_inv q s \<Longrightarrow> run_inv q (start_workers n s)"
  by (induction n arbitrary: s) (simp_all add: start_worker_inv)

lemma start_workers_length: "length (workers (start_workers n s)) = length (workers s) + n"
  by (induction n arbitrary: s) simp_all

lemma start_workers_puts: "puts (start_workers n s) = puts s"
  by (induction n arbitrary: s) (simp_all add: worker_loop_def split: list.split)

lemma start_pool_inv: "run_inv q (start_pool q r)"
  unfolding start_pool_def
  by (rule start_workers_inv) (simp add: run_inv_def hashing_indices_def put_indices_def)

lemma start_pool_length: "length (workers (start_pool q r)) = min MAX_CONCURRENCY (length q)"
  by (simp add: start_pool_def start_workers_length)

lemma start_pool_puts: "puts (start_pool q r) = []"
  by (simp add: start_pool_def start_workers_puts)

lemma reachable_inv: "run_inv q (run_events cx evs (start_pool q r))"
  by (rule run_events_inv) (rule start_pool_inv)

lemma all_finished_no_hashing:
  "list_all (\<lambda>w. w = Finished) ws \<Longrightarrow> concat (map hashing_index ws) = []"
  by (induction ws) auto

subsection \<open>The log of PUT requests\<close>

lemma worker_loop_puts [simp]: "puts (worker_loop w s) = puts s"
  by (simp add: worker_loop_def split: list.split)

lemma worker_throws_puts [simp]: "puts (worker_throws w e s) = puts s"
  by (simp add: worker_throws_def)

lemma step_puts:
  "\<exists>ys. puts (step cx ev s) = puts s @ ys \<and>
        (\<forall>e \<in> set ys. snd (snd e) = chunk_request cx (fst e) (fst (snd e))) \<and>
        mset (map (\<lambda>e. fst (snd e)) ys) \<subseteq># mset (event_uuid ev)"
  by (cases ev) (auto split: worker.split sum.split)

lemma run_events_puts:
  "\<exists>ys. puts (run_events cx evs s) = puts s @ ys \<and>
        (\<forall>e \<in> set ys. snd (snd e) = chunk_request cx (fst e) (fst (snd e))) \<and>
        mset (map (\<lambda>e. fst (snd e)) ys) \<subseteq># mset (event_uuids evs)"
proof (induction evs arbitrary: s)
  case Nil
  show ?case by (simp add: event_uuids_def)
next
  case (Cons ev evs)
  obtain ys where ys: "puts (step cx ev s) = puts s @ ys"
      "\<forall>e \<in> set ys. snd (snd e) = chunk_request cx (fst e) (fst (snd e))"
      "mset (map (\<lambda>e. fst (snd e)) ys) \<subseteq># mset (event_uuid ev)"
    using step_puts by blast
  obtain zs where zs: "puts (run_events cx evs (step cx ev s)) = puts (step cx ev s) @ zs"
      "\<forall>e \<in> set zs. snd (snd e) = chunk_request cx (fst e) (fst (snd e))"
      "mset (map (\<lambda>e. fst (snd e)) zs) \<subseteq># mset (event_uuids evs)"
    using Cons.IH by blast
  have "mset (map (\<lambda>e. fst (snd e)) (ys @ zs)) \<subseteq># mset (event_uuids (ev # evs))"
    using ys(3) zs(3) by (simp add: event_uuids_def subset_mset.add_mono)
  with ys zs show ?case by (intro exI [of _ "ys @ zs"]) auto
qed

lemma reachable_puts:
  "(\<forall>e \<in> set (puts (run_events cx evs (start_pool q r))).
       snd (snd e) = chunk_request cx (fst e) (fst (snd e))) \<and>
   mset (put_uuids (run_events cx evs (start_pool q r))) \<subseteq># mset (event_uuids evs)"
  using run_events_puts [of cx evs "start_pool q r"]
  by (auto simp: start_pool_puts put_uuids_def)

subsection \<open>Idempotency keys\<close>

lemma digit_char_not_minus: "d < 10 \<Longrightarrow> digit_char d \<noteq> CHR ''-'' \<and> CHR ''-'' \<noteq> digit_char d"
proof -
  assume "d < 10"
  then have "d \<in> {0,1,2,3,4,5,6,7,8,9}" by auto
  then show ?thesis by (auto simp: digit_char_def)
qed

lemma dec_nat_no_minus: "CHR ''-'' \<notin> set (dec_nat n)"
proof (induction n rule: dec_nat.induct)
  case (1 n)
  show ?case
  proof (cases "n < 10")
    case True
    then show ?thesis by (subst dec_nat.simps) (simp add: digit_char_not_minus)
  next
    case False
    with 1 show ?thesis by (subst dec_nat.simps) (simp add: digit_char_not_minus)
  qed
qed

lemma dec_nat_nonempty: "dec_nat n \<noteq> []"
  by (subst dec_nat.simps) simp

lemma append_sep_inj:
  assumes "c \<notin> set a" "c \<notin> set b" "a @ c # u = b @ c # v"
  shows "a = b \<and> u = v"
  using assms
proof (induction a arbitrary: b)
  case Nil
  then show ?case by (cases b) auto
next
  case (Cons x a)
  then show ?case by (cases b) auto
qed

lemma dec_nat_not_minus_first: "dec_nat a @ CHR ''-'' # u \<noteq> CHR ''-'' # w"
proof (cases "dec_nat a")
  case Nil
  with dec_nat_nonempty show ?thesis by blast
next
  case (Cons x xs)
  with dec_nat_no_minus [of a] show ?thesis by auto
qed

lemma key_tail_inj:
  assumes "String_of_int i @ ''-'' @ u = String_of_int j @ ''-'' @ v"
  shows "u = v"
proof -
  consider "i < 0" "j < 0" | "i < 0" "\<not> j < 0" | "\<not> i < 0" "j < 0" | "\<not> i < 0" "\<not> j < 0"
    by blast
  then show ?thesis
  proof cases
    case 1
    with assms have "dec_nat (nat (- i)) @ CHR ''-'' # u = dec_nat (nat (- j)) @ CHR ''-'' # v"
      by (simp add: String_of_int_def)
    then show ?thesis
      using append_sep_inj [of "CHR ''-''" "dec_nat (nat (- i))" "dec_nat (nat (- j))" u v]
        dec_nat_no_minus by blast
  next
    case 2
    with assms have "dec_nat (nat j) @ CHR ''-'' # v = CHR ''-'' # (dec_nat (nat (- i)) @ CHR ''-'' # u)"
      by (simp add: String_of_int_def)
    with dec_nat_not_minus_first show ?thesis by blast
  next
    case 3
    with assms have "dec_nat (nat i) @ CHR ''-'' # u = CHR ''-'' # (dec_nat (nat (- j)) @ CHR ''-'' # v)"
      by (simp add: String_of_int_def)
    with dec_nat_not_minus_first show ?thesis by blast
  next
    case 4
    with assms have "dec_nat (nat i) @ CHR ''-'' # u = dec_nat (nat j) @ CHR ''-'' # v"
      by (simp add: String_of_int_def)
    then show ?thesis
      using append_sep_inj [of "CHR ''-''" "dec_nat (nat i)" "dec_nat (nat j)" u v]
        dec_nat_no_minus by blast
  qed
qed

section \<open>Bounded concurrency and single claims\<close>

lemma reachable_put_indices:
  "mset (put_indices (run_events cx evs (start_pool q r))) \<subseteq># mset q"
proof -
  let ?p = "run_events cx evs (start_pool q r)"
  have inv: "run_inv q ?p" by (rule reachable_inv)
  then have "mset (put_indices ?p) + mset (hashing_indices ?p) \<subseteq># mset (map snd (claims ?p))"
    by (simp add: run_inv_def)
  then have "mset (put_indices ?p) \<subseteq># mset (map snd (claims ?p))"
    by (meson mset_subset_eq_add_left subset_mset.order_trans)
  moreover have "mset (map snd (claims ?p)) \<subseteq># mset q"
  proof -
    have "mset q = mset (map snd (claims ?p)) + mset (uploadQueue ?p)"
      using inv by (metis mset_append run_inv_def)
    then show ?thesis by simp
  qed
  ultimately show ?thesis by (rule subset_mset.order_trans)
qed

lemma reachable_resolved:
  assumes "Promise_all (run_events cx evs (start_pool q r)) = Resolved"
  shows "uploadQueue (run_events cx evs (start_pool q r)) = []"
    and "map snd (claims (run_events cx evs (start_pool q r))) = q"
    and "mset (put_indices (run_events cx evs (start_pool q r))) = mset q"
proof -
  let ?p = "run_events cx evs (start_pool q r)"
  have inv: "run_inv q ?p" by (rule reachable_inv)
  from assms have rej: "rejection ?p = None" and fin: "list_all (\<lambda>w. w = Finished) (workers ?p)"
    by (auto simp: Promise_all_def split: option.splits if_splits)
  have len: "length (workers ?p) = min MAX_CONCURRENCY (length q)"
    by (simp add: start_pool_length)
  show qe: "uploadQueue ?p = []"
  proof (cases "workers ?p")
    case Nil
    with len have "min 4 (length q) = 0" by (simp add: MAX_CONCURRENCY_def)
    then have "q = []" by (simp add: min_def split: if_splits)
    with inv show ?thesis by (simp add: run_inv_def)
  next
    case (Cons w ws)
    with fin have "Finished \<in> set (workers ?p)" by simp
    with inv show ?thesis by (simp add: run_inv_def)
  qed
  with inv show cl: "map snd (claims ?p) = q" by (simp add: run_inv_def)
  have "hashing_indices ?p = []"
    using fin by (simp add: hashing_indices_def all_finished_no_hashing)
  with inv rej cl show "mset (put_indices ?p) = mset q" by (simp add: run_inv_def)
qed

text \<open>
  C5. In every run, at every moment: the pool has \<open>min 4 (length queue)\<close> workers, so
  at most 4, and at most 4 PUT requests are in flight; the indices shifted off the queue so
  far, in order, followed by the rest of the queue, are the initial queue, so every entry of
  the queue is claimed at most once, by one worker of the pool, and exactly once when the
  run resolves; every index is requested at most as often as it is queued, so no index of a
  queue without duplicates is uploaded twice.
\<close>

theorem pool_bounded_and_claims_once:
  "let p = run_events cx evs (start_pool q r) in
     length (workers p) = min 4 (length q) \<and>
     length (workers p) \<le> MAX_CONCURRENCY \<and>
     length (filter in_flight (workers p)) \<le> 4 \<and>
     map snd (claims p) @ uploadQueue p = q \<and>
     (\<forall>c \<in> set (claims p). fst c < length (workers p)) \<and>
     (Promise_all p = Resolved \<longrightarrow> map snd (claims p) = q) \<and>
     mset (put_indices p) \<subseteq># mset q \<and>
     (distinct q \<longrightarrow> distinct (put_indices p))"
proof -
  let ?p = "run_events cx evs (start_pool q r)"
  have inv: "run_inv q ?p" by (rule reachable_inv)
  have len: "length (workers ?p) = min 4 (length q)"
    by (simp add: start_pool_length MAX_CONCURRENCY_def)
  have "length (filter in_flight (workers ?p)) \<le> length (workers ?p)" by (rule length_filter_le)
  with len have fl: "length (filter in_flight (workers ?p)) \<le> 4" by simp
  have sub: "mset (put_indices ?p) \<subseteq># mset q" by (rule reachable_put_indices)
  then have d: "distinct q \<longrightarrow> distinct (put_indices ?p)"
    using distinct_mset_subseteq by blast
  have res: "Promise_all ?p = Resolved \<longrightarrow> map snd (claims ?p) = q"
    using reachable_resolved(2) by blast
  from inv len fl sub d res show ?thesis
    by (simp add: run_inv_def MAX_CONCURRENCY_def Let_def)
qed

lemma demo_run:
  "put_indices (run_events demo_ctx demo_events (start_pool [0, 1, 2] 0)) = [1, 0, 2]"
  "Promise_all (run_events demo_ctx demo_events (start_pool [0, 1, 2] 0)) = Resolved"
  "claims (run_events demo_ctx demo_events (start_pool [0, 1, 2] 0)) = [(0, 0), (1, 1), (2, 2)]"
  by (simp_all add: demo_events_def start_pool_def MAX_CONCURRENCY_def worker_loop_def
      put_indices_def Promise_all_def uploadChunk_response_def ok_response_def response_ok_def
      numeral_3_eq_3)

lemma six_run:
  "workers (run_events demo_ctx six_events (start_pool [0, 1, 2, 3, 4, 5] 0))
     = [Hashing 5, Uploading 1, Uploading 4, Uploading 3]"
  "claims (run_events demo_ctx six_events (start_pool [0, 1, 2, 3, 4, 5] 0))
     = [(0, 0), (1, 1), (2, 2), (3, 3), (2, 4), (0, 5)]"
  "put_indices (run_events demo_ctx six_events (start_pool [0, 1, 2, 3, 4, 5] 0)) = [0, 1, 2, 3, 4]"
  by (simp_all add: six_events_def start_pool_def MAX_CONCURRENCY_def worker_loop_def
      put_indices_def Promise_all_def uploadChunk_response_def ok_response_def response_ok_def
      eval_nat_numeral)

theorem pool_bounded_and_claims_once_witness:
  "distinct [0, 1, 2, 3, 4, 5 :: int] \<and>
   (let p = run_events demo_ctx six_events (start_pool [0, 1, 2, 3, 4, 5] 0) in
     length (workers p) = 4 \<and>
     (0, 5) \<in> set (claims p) \<and> (0::nat) < length (workers p) \<and>
     map snd (claims p) @ uploadQueue p = [0, 1, 2, 3, 4, 5] \<and>
     put_indices p = [0, 1, 2, 3, 4] \<and> distinct (put_indices p)) \<and>
   Promise_all (run_events demo_ctx demo_events (start_pool [0, 1, 2] 0)) = Resolved \<and>
   map snd (claims (run_events demo_ctx demo_events (start_pool [0, 1, 2] 0))) = [0, 1, 2]"
  using pool_bounded_and_claims_once [of demo_ctx six_events "[0, 1, 2, 3, 4, 5]" 0]
    pool_bounded_and_claims_once [of demo_ctx demo_events "[0, 1, 2]" 0]
  by (simp add: Let_def six_run demo_run)

section \<open>The chunk request\<close>

lemma header_names:
  "to_lower ''Content-Type'' = ''content-type''"
  "to_lower ''X-Chunk-Size'' = ''x-chunk-size''"
  "to_lower ''X-Chunk-Checksum'' = ''x-chunk-checksum''"
  "to_lower ''Idempotency-Key'' = ''idempotency-key''"
  "to_lower ''Authorization'' = ''authorization''"
  "to_lower ''Accept'' = ''accept''"
  by (simp_all add: to_lower_def to_lower_char_def)

lemma uploadChunk_request_fields:
  "rq_method (uploadChunk_request base tok sid i chunk cksum key) = Some ''PUT''"
  "rq_url (uploadChunk_request base tok sid i chunk cksum key) =
     base @ ''/upload/sessions/'' @ sid @ ''/chunk/'' @ String_of_int i"
  "rq_body (uploadChunk_request base tok sid i chunk cksum key) = BlobBody chunk"
  "headers_get ''X-Chunk-Size'' (rq_headers (uploadChunk_request base tok sid i chunk cksum key))
     = Some (String_of_int (int (length chunk)))"
  "headers_get ''X-Chunk-Checksum'' (rq_headers (uploadChunk_request base tok sid i chunk cksum key))
     = Some cksum"
  "headers_get ''Idempotency-Key'' (rq_headers (uploadChunk_request base tok sid i chunk cksum key))
     = Some key"
  by (simp_all add: uploadChunk_request_def Let_def headers_set_def headers_has_def
      headers_get_def header_names)

lemma distinct_map_transfer:
  assumes "distinct (map f xs)" and "\<And>x y. x \<in> set xs \<Longrightarrow> y \<in> set xs \<Longrightarrow> g x = g y \<Longrightarrow> f x = f y"
  shows "distinct (map g xs)"
proof -
  from assms(1) have d: "distinct xs" and i: "inj_on f (set xs)" by (simp_all add: distinct_map)
  have "inj_on g (set xs)"
  proof (rule inj_onI)
    fix x y assume "x \<in> set xs" "y \<in> set xs" "g x = g y"
    then have "f x = f y" by (rule assms(2))
    with i \<open>x \<in> set xs\<close> \<open>y \<in> set xs\<close> show "x = y" by (simp add: inj_on_def)
  qed
  with d show ?thesis by (simp add: distinct_map)
qed

lemma chunk_request_fields:
  "rq_method (chunk_request cx i uuid) = Some ''PUT''"
  "rq_url (chunk_request cx i uuid) =
     cx_api_base cx @ ''/upload/sessions/'' @ cx_session cx @ ''/chunk/'' @ String_of_int i"
  "headers_get ''X-Chunk-Size'' (rq_headers (chunk_request cx i uuid))
     = Some (String_of_int (int (length (chunk_blob (cx_file cx) (cx_chunk_size cx) i))))"
  "headers_get ''X-Chunk-Checksum'' (rq_headers (chunk_request cx i uuid))
     = Some (bufferToHex (cx_digest cx (chunk_blob (cx_file cx) (cx_chunk_size cx) i)))"
  "idempotency_key (chunk_request cx i uuid)
     = Some (cx_session cx @ ''-'' @ String_of_int i @ ''-'' @ uuid)"
  "rq_body (chunk_request cx i uuid) = BlobBody (chunk_blob (cx_file cx) (cx_chunk_size cx) i)"
  unfolding chunk_request_def idempotency_key_def Let_def sha256HexFromBlob_def
  by (simp_all only: uploadChunk_request_fields)

text \<open>
  C6. Every PUT request that a run issues for a chunk index \<open>i\<close> has the method PUT and
  the URL of session and index; its \<open>X-Chunk-Size\<close> header is the decimal length of
  chunk \<open>i\<close>, its \<open>X-Chunk-Checksum\<close> header the hexadecimal digest of exactly the
  bytes of chunk \<open>i\<close>, its \<open>Idempotency-Key\<close> header the session id, the index and the
  UUID drawn for the request, joined by hyphens, and its body the bytes of chunk \<open>i\<close>.
  When the UUIDs drawn are distinct, so are the keys of all requests of the run.
\<close>

theorem chunk_upload_request:
  "let p = run_events cx evs (start_pool q r) in
     (\<forall>e \<in> set (puts p).
        (let i = fst e; uuid = fst (snd e); rq = snd (snd e);
             blob = chunk_blob (cx_file cx) (cx_chunk_size cx) i
         in rq_method rq = Some ''PUT'' \<and>
            rq_url rq = cx_api_base cx @ ''/upload/sessions/'' @ cx_session cx @ ''/chunk/''
                          @ String_of_int i \<and>
            headers_get ''X-Chunk-Size'' (rq_headers rq) = Some (String_of_int (int (length blob))) \<and>
            headers_get ''X-Chunk-Checksum'' (rq_headers rq) = Some (bufferToHex (cx_digest cx blob)) \<and>
            idempotency_key rq = Some (cx_session cx @ ''-'' @ String_of_int i @ ''-'' @ uuid) \<and>
            rq_body rq = BlobBody blob)) \<and>
     (distinct (event_uuids evs) \<longrightarrow>
        distinct (map (\<lambda>e. idempotency_key (snd (snd e))) (puts p)))"
proof -
  let ?p = "run_events cx evs (start_pool q r)"
  have shape: "snd (snd e) = chunk_request cx (fst e) (fst (snd e))" if "e \<in> set (puts ?p)" for e
    using reachable_puts [of cx evs q r] that by blast
  have uu: "mset (put_uuids ?p) \<subseteq># mset (event_uuids evs)"
    using reachable_puts [of cx evs q r] by blast
  have fields: "\<forall>e \<in> set (puts ?p).
        (let i = fst e; uuid = fst (snd e); rq = snd (snd e);
             blob = chunk_blob (cx_file cx) (cx_chunk_size cx) i
         in rq_method rq = Some ''PUT'' \<and>
            rq_url rq = cx_api_base cx @ ''/upload/sessions/'' @ cx_session cx @ ''/chunk/''
                          @ String_of_int i \<and>
            headers_get ''X-Chunk-Size'' (rq_headers rq) = Some (String_of_int (int (length blob))) \<and>
            headers_get ''X-Chunk-Checksum'' (rq_headers rq) = Some (bufferToHex (cx_digest cx blob)) \<and>
            idempotency_key rq = Some (cx_session cx @ ''-'' @ String_of_int i @ ''-'' @ uuid) \<and>
            rq_body rq = BlobBody blob)"
  proof
    fix e assume e: "e \<in> set (puts ?p)"
    show "let i = fst e; uuid = fst (snd e); rq = snd (snd e);
             blob = chunk_blob (cx_file cx) (cx_chunk_size cx) i
         in rq_method rq = Some ''PUT'' \<and>
            rq_url rq = cx_api_base cx @ ''/upload/sessions/'' @ cx_session cx @ ''/chunk/''
                          @ String_of_int i \<and>
            headers_get ''X-Chunk-Size'' (rq_headers rq) = Some (String_of_int (int (length blob))) \<and>
            headers_get ''X-Chunk-Checksum'' (rq_headers rq) = Some (bufferToHex (cx_digest cx blob)) \<and>
            idempotency_key rq = Some (cx_session cx @ ''-'' @ String_of_int i @ ''-'' @ uuid) \<and>
            rq_body rq = BlobBody blob"
      unfolding Let_def shape [OF e] by (simp only: chunk_request_fields simp_thms)
  qed
  have uniq: "distinct (map (\<lambda>e. idempotency_key (snd (snd e))) (puts ?p))"
    if d: "distinct (event_uuids evs)"
  proof (rule distinct_map_transfer [where f = "\<lambda>e. fst (snd e)"])
    have "mset (map (\<lambda>e. fst (snd e)) (puts ?p)) \<subseteq># mset (event_uuids evs)"
      using uu by (simp only: put_uuids_def)
    with d show "distinct (map (\<lambda>e. fst (snd e)) (puts ?p))"
      by (rule distinct_mset_subseteq)
  next
    fix x y
    assume x: "x \<in> set (puts ?p)" and y: "y \<in> set (puts ?p)"
      and eq: "idempotency_key (snd (snd x)) = idempotency_key (snd (snd y))"
    have "Some (cx_session cx @ ''-'' @ String_of_int (fst x) @ ''-'' @ fst (snd x))
            = Some (cx_session cx @ ''-'' @ String_of_int (fst y) @ ''-'' @ fst (snd y))"
      using eq unfolding shape [OF x] shape [OF y] by (simp only: chunk_request_fields)
    then have "String_of_int (fst x) @ ''-'' @ fst (snd x) = String_of_int (fst y) @ ''-'' @ fst (snd y)"
      by (simp only: option.inject same_append_eq)
    then show "fst (snd x) = fst (snd y)" by (rule key_tail_inj)
  qed
  from fields uniq show ?thesis unfolding Let_def by blast
qed

lemma demo_puts:
  "puts (run_events demo_ctx demo_events (start_pool [0, 1, 2] 0))
     = [(1, ''u1'', chunk_request demo_ctx 1 ''u1''), (0, ''u0'', chunk_request demo_ctx 0 ''u0''),
        (2, ''u2'', chunk_request demo_ctx 2 ''u2'')]"
  by (simp add: demo_events_def start_pool_def MAX_CONCURRENCY_def worker_loop_def
      uploadChunk_response_def ok_response_def response_ok_def numeral_3_eq_3)

lemma demo_chunk_1:
  "chunk_blob (cx_file demo_ctx) (cx_chunk_size demo_ctx) 1 = [4, 5, 6]"
  "cx_digest demo_ctx [4, 5, 6] = [3, 255]"
  "cx_session demo_ctx = ''s1''" "cx_api_base demo_ctx = ''/api''"
  by (simp_all add: demo_ctx_def demo_file_def chunk_blob_def blob_slice_def file_size_def
      demo_digest_def)

lemma demo_strings:
  "String_of_int 1 = ''1''" "String_of_int 3 = ''3''" "String_of_int 0 = ''0''"
  "String_of_int 2 = ''2''" "bufferToHex [3, 255] = ''03ff''"
  by (simp_all add: String_of_int_def dec_nat.simps digit_char_def bufferToHex_def padStart_def
      toString16.simps hex_digit_def)

theorem chunk_upload_request_witness:
  "(1, ''u1'', chunk_request demo_ctx 1 ''u1'')
      \<in> set (puts (run_events demo_ctx demo_events (start_pool [0, 1, 2] 0))) \<and>
   distinct (event_uuids demo_events) \<and>
   rq_method (chunk_request demo_ctx 1 ''u1'') = Some ''PUT'' \<and>
   rq_url (chunk_request demo_ctx 1 ''u1'') = ''/api/upload/sessions/s1/chunk/1'' \<and>
   headers_get ''X-Chunk-Size'' (rq_headers (chunk_request demo_ctx 1 ''u1'')) = Some ''3'' \<and>
   headers_get ''X-Chunk-Checksum'' (rq_headers (chunk_request demo_ctx 1 ''u1'')) = Some ''03ff'' \<and>
   idempotency_key (chunk_request demo_ctx 1 ''u1'') = Some ''s1-1-u1'' \<and>
   rq_body (chunk_request demo_ctx 1 ''u1'') = BlobBody [4, 5, 6] \<and>
   distinct (map (\<lambda>e. idempotency_key (snd (snd e)))
     (puts (run_events demo_ctx demo_events (start_pool [0, 1, 2] 0))))"
proof -
  let ?p = "run_events demo_ctx demo_events (start_pool [0, 1, 2] 0)"
  let ?rq = "chunk_request demo_ctx 1 ''u1''"
  have mem: "(1, ''u1'', ?rq) \<in> set (puts ?p)"
    by (simp add: demo_puts)
  have d: "distinct (event_uuids demo_events)"
    by (simp add: event_uuids_def demo_events_def)
  note inst = chunk_upload_request [of demo_ctx demo_events "[0, 1, 2]" 0, unfolded Let_def]
  from inst mem have
    "rq_method (snd (snd (1::int, ''u1'', ?rq))) = Some ''PUT'' \<and>
     rq_url (snd (snd (1::int, ''u1'', ?rq))) = cx_api_base demo_ctx @ ''/upload/sessions/'' @ cx_session demo_ctx
        @ ''/chunk/'' @ String_of_int (fst (1::int, ''u1'', ?rq)) \<and>
     headers_get ''X-Chunk-Size'' (rq_headers (snd (snd (1::int, ''u1'', ?rq)))) =
        Some (String_of_int (int (length (chunk_blob (cx_file demo_ctx) (cx_chunk_size demo_ctx)
          (fst (1::int, ''u1'', ?rq)))))) \<and>
     headers_get ''X-Chunk-Checksum'' (rq_headers (snd (snd (1::int, ''u1'', ?rq)))) =
        Some (bufferToHex (cx_digest demo_ctx (chunk_blob (cx_file demo_ctx) (cx_chunk_size demo_ctx)
          (fst (1::int, ''u1'', ?rq))))) \<and>
     idempotency_key (snd (snd (1::int, ''u1'', ?rq))) =
        Some (cx_session demo_ctx @ ''-'' @ String_of_int (fst (1::int, ''u1'', ?rq)) @ ''-''
          @ fst (snd (1::int, ''u1'', ?rq))) \<and>
     rq_body (snd (snd (1::int, ''u1'', ?rq))) =
        BlobBody (chunk_blob (cx_file demo_ctx) (cx_chunk_size demo_ctx) (fst (1::int, ''u1'', ?rq)))"
    by blast
  then have fields:
    "rq_method ?rq = Some ''PUT'' \<and>
     rq_url ?rq = ''/api/upload/sessions/s1/chunk/1'' \<and>
     headers_get ''X-Chunk-Size'' (rq_headers ?rq) = Some ''3'' \<and>
     headers_get ''X-Chunk-Checksum'' (rq_headers ?rq) = Some ''03ff'' \<and>
     idempotency_key ?rq = Some ''s1-1-u1'' \<and>
     rq_body ?rq = BlobBody [4, 5, 6]"
    by (simp add: demo_chunk_1 demo_strings)
  from inst d have keys: "distinct (map (\<lambda>e. idempotency_key (snd (snd e))) (puts ?p))"
    by blast
  from mem d fields keys show ?thesis by blast
qed

section \<open>What a run uploads\<close>

lemma upload_queue_cases:
  "st_missing probe \<noteq> [] \<Longrightarrow> upload_queue probe tot = Inr (st_missing probe)"
  "st_missing probe = [] \<Longrightarrow> upload_queue probe tot = Array_from_length tot"
  by (simp_all add: upload_queue_def)

lemma Array_from_length_Inr:
  "Array_from_length tot = Inr q \<Longrightarrow>
     q = (case tot of Finite t \<Rightarrow> map int [0..<nat t] | _ \<Rightarrow> [])"
  by (auto simp: Array_from_length_def split: jsnum.splits if_splits)

lemma finalize_phase_complete:
  assumes "finalize_phase fin getStatus st = (st', completed, polls)"
  shows "um_status st' = StUploadComplete \<longleftrightarrow> completed = 1"
    and "um_status st' = StUploadComplete \<or> um_status st' = StErrorOccurred"
  using assms
  by (auto simp: finalize_phase_def Let_def catch_upload_def announce_complete_def
      split: sum.splits if_splits poll_outcome.splits)

text \<open>
  The PUT requests of \<open>handleUpload\<close> are those of its pool, and it announces completion
  only after \<open>Promise.all\<close> has resolved, reports an error when it is rejected.
\<close>

lemma handleUpload_pool:
  fixes base token :: string
  assumes f: "um_file st = Some f"
    and c: "env_create env (session_create_payload f (um_chunkSize st) (sha256HexFromFile digest f))
              = Inr session"
    and p: "env_probe env = Inr probe"
    and q: "upload_queue probe (total_chunks f (um_chunkSize st)) = Inr q"
  defines "cx \<equiv> \<lparr> cx_api_base = base, cx_token = token,
                    cx_session = us_upload_session_id session, cx_file = f,
                    cx_chunk_size = um_chunkSize st, cx_digest = digest \<rparr>"
  defines "pl \<equiv> run_events cx (env_events env) (start_pool q (length (remdups (st_received probe))))"
  defines "run \<equiv> handleUpload base digest token env st"
  shows "ur_puts run = puts pl"
    and "um_status (ur_state run) = StUploadComplete \<Longrightarrow> Promise_all pl = Resolved"
    and "Promise_all pl = Rejected err \<Longrightarrow>
           um_status (ur_state run) = StErrorOccurred \<and>
           um_error (ur_state run) = Some (Message (error_message err)) \<and>
           ur_polls run = 0 \<and> ur_completed run = 0"
proof -
  show "ur_puts run = puts pl"
    using f c p q
    by (simp add: run_def handleUpload_def Let_def pl_def cx_def split: settled.split prod.split)
  show "um_status (ur_state run) = StUploadComplete \<Longrightarrow> Promise_all pl = Resolved"
    using f c p q
    by (cases "Promise_all pl")
       (simp_all add: run_def handleUpload_def Let_def pl_def cx_def catch_upload_def)
  show "Promise_all pl = Rejected err \<Longrightarrow>
           um_status (ur_state run) = StErrorOccurred \<and>
           um_error (ur_state run) = Some (Message (error_message err)) \<and>
           ur_polls run = 0 \<and> ur_completed run = 0"
    using f c p q
    by (simp add: run_def handleUpload_def Let_def pl_def cx_def catch_upload_def)
qed

text \<open>
  When \<open>Promise.all\<close> is rejected, \<open>handleUpload\<close> never reaches the call of
  \<open>finalizeSession\<close>: it makes no such call, leaves the file id and the finalizing
  flag as they were, and its result does not depend on what finalize or the status
  requests would have answered.
\<close>

lemma handleUpload_rejected:
  fixes base token :: string
  assumes f: "um_file st = Some f"
    and c: "env_create env (session_create_payload f (um_chunkSize st) (sha256HexFromFile digest f))
              = Inr session"
    and p: "env_probe env = Inr probe"
    and q: "upload_queue probe (total_chunks f (um_chunkSize st)) = Inr q"
    and r: "Promise_all (run_events
        \<lparr> cx_api_base = base, cx_token = token, cx_session = us_upload_session_id session,
          cx_file = f, cx_chunk_size = um_chunkSize st, cx_digest = digest \<rparr>
        (env_events env) (start_pool q (length (remdups (st_received probe))))) = Rejected err"
  shows "ur_finalized (handleUpload base digest token env st) = 0"
    and "um_fileId (ur_state (handleUpload base digest token env st)) = um_fileId st"
    and "um_finalizing (ur_state (handleUpload base digest token env st)) = um_finalizing st"
    and "handleUpload base digest token (env\<lparr>env_finalize := fin, env_status := gs\<rparr>) st
           = handleUpload base digest token env st"
  using f c p q r
  by (simp_all add: handleUpload_def Let_def catch_upload_def)

text \<open>The three runs of the concrete inputs, for any context and any count of received chunks.\<close>

lemma demo_events_run:
  "puts (run_events cx demo_events (start_pool [0, 1, 2] r))
     = [(1, ''u1'', chunk_request cx 1 ''u1''), (0, ''u0'', chunk_request cx 0 ''u0''),
        (2, ''u2'', chunk_request cx 2 ''u2'')]"
  "Promise_all (run_events cx demo_events (start_pool [0, 1, 2] r)) = Resolved"
  by (simp_all add: demo_events_def start_pool_def MAX_CONCURRENCY_def worker_loop_def
      Promise_all_def uploadChunk_response_def ok_response_def response_ok_def numeral_3_eq_3)

lemma resume_events_run:
  "puts (run_events cx resume_events (start_pool [1, 2] r))
     = [(1, ''a'', chunk_request cx 1 ''a''), (2, ''b'', chunk_request cx 2 ''b'')]"
  "Promise_all (run_events cx resume_events (start_pool [1, 2] r)) = Resolved"
  by (simp_all add: resume_events_def start_pool_def MAX_CONCURRENCY_def worker_loop_def
      Promise_all_def uploadChunk_response_def ok_response_def response_ok_def numeral_2_eq_2)

lemma failing_run:
  "puts (run_events cx failing_events (start_pool [0, 1, 2] r))
     = [(0, ''u0'', chunk_request cx 0 ''u0'')]"
  "Promise_all (run_events cx failing_events (start_pool [0, 1, 2] r)) = Rejected (Error ''boom'')"
  by (simp_all add: failing_events_def start_pool_def MAX_CONCURRENCY_def worker_loop_def worker_throws_def
      Promise_all_def uploadChunk_response_def fail_response_def response_ok_def or_else_def
      numeral_3_eq_3)

lemma demo_queue:
  "total_chunks demo_file 3 = Finite 3"
  "upload_queue (status_answer rcv [] st) (Finite 3) = Inr [0, 1, 2]"
  "upload_queue (status_answer rcv [1, 2] st) tot = Inr [1, 2]"
  "upload_queue (status_answer rcv [0, 1, 2] st) tot = Inr [0, 1, 2]"
  by (simp_all add: total_chunks_def Math_ceil_div_def file_size_def demo_file_def
      upload_queue_def status_answer_def Array_from_length_def numeral_3_eq_3)

lemma demo_upload_runs:
  "map fst (ur_puts (handleUpload ''/api'' demo_digest ''tok'' env_all_received demo_state)) = [1, 0, 2]"
  "um_status (ur_state (handleUpload ''/api'' demo_digest ''tok'' env_all_received demo_state))
     = StUploadComplete"
  "map fst (ur_puts (handleUpload ''/api'' demo_digest ''tok'' env_resume demo_state)) = [1, 2]"
  "um_status (ur_state (handleUpload ''/api'' demo_digest ''tok'' env_resume demo_state))
     = StUploadComplete"
  "map fst (ur_puts (handleUpload ''/api'' demo_digest ''tok'' env_chunk_fails demo_state)) = [0]"
  "um_status (ur_state (handleUpload ''/api'' demo_digest ''tok'' env_chunk_fails demo_state))
     = StErrorOccurred"
  "um_error (ur_state (handleUpload ''/api'' demo_digest ''tok'' env_chunk_fails demo_state))
     = Some (Message ''boom'')"
  "ur_polls (handleUpload ''/api'' demo_digest ''tok'' env_chunk_fails demo_state) = 0"
  "ur_completed (handleUpload ''/api'' demo_digest ''tok'' env_chunk_fails demo_state) = 0"
  by (simp_all add: handleUpload_def demo_state_def env_all_received_def env_resume_def
      env_chunk_fails_def demo_queue demo_events_run resume_events_run failing_run Let_def
      demo_session_def finalize_phase_def demo_finalized_def announce_complete_def
      catch_upload_def error_message_def)

text \<open>
  C2, as the claim states it, fails: the probe of this server reports an empty missing list
  (every chunk is received), and the client uploads all three chunks.
\<close>

theorem empty_missing_counterexample:
  "env_probe env_all_received = Inr (status_answer [0, 1, 2] [] ''uploading'') \<and>
   st_missing (status_answer [0, 1, 2] [] ''uploading'') = [] \<and>
   map fst (ur_puts (handleUpload ''/api'' demo_digest ''tok'' env_all_received demo_state)) = [1, 0, 2]"
proof -
  have "env_probe env_all_received = Inr (status_answer [0, 1, 2] [] ''uploading'')"
    by (simp add: env_all_received_def)
  moreover have "st_missing (status_answer [0, 1, 2] [] ''uploading'') = []"
    by (simp add: status_answer_def)
  ultimately show ?thesis
    using demo_upload_runs(1) by blast
qed

text \<open>
  C2, amended. After the probe the upload queue is the missing list of the probe when that
  list is not empty, and the list of all indices \<open>0, ..., total - 1\<close> when it is empty. A
  run sends PUT requests only for indices of the queue, for none more often than it is
  queued, and when the run announces completion it has sent one for every entry of the
  queue.
\<close>

theorem uploads_exactly_the_queue:
  fixes base token :: string
  assumes "um_file st = Some f"
    and "env_create env (session_create_payload f (um_chunkSize st) (sha256HexFromFile digest f))
           = Inr session"
    and "env_probe env = Inr probe"
    and "upload_queue probe (total_chunks f (um_chunkSize st)) = Inr q"
  shows "(st_missing probe \<noteq> [] \<longrightarrow> q = st_missing probe) \<and>
         (st_missing probe = [] \<longrightarrow>
            q = (case total_chunks f (um_chunkSize st) of
                   Finite t \<Rightarrow> map int [0..<nat t] | _ \<Rightarrow> [])) \<and>
         mset (map fst (ur_puts (handleUpload base digest token env st))) \<subseteq># mset q \<and>
         (um_status (ur_state (handleUpload base digest token env st)) = StUploadComplete \<longrightarrow>
            mset (map fst (ur_puts (handleUpload base digest token env st))) = mset q)"
proof -
  let ?cx = "\<lparr> cx_api_base = base, cx_token = token,
                cx_session = us_upload_session_id session, cx_file = f,
                cx_chunk_size = um_chunkSize st, cx_digest = digest \<rparr>"
  let ?pl = "run_events ?cx (env_events env) (start_pool q (length (remdups (st_received probe))))"
  let ?run = "handleUpload base digest token env st"
  have a: "st_missing probe \<noteq> [] \<longrightarrow> q = st_missing probe"
    using assms(4) by (auto simp: upload_queue_cases)
  have b: "st_missing probe = [] \<longrightarrow>
            q = (case total_chunks f (um_chunkSize st) of
                   Finite t \<Rightarrow> map int [0..<nat t] | _ \<Rightarrow> [])"
    using assms(4) by (auto simp: upload_queue_cases dest: Array_from_length_Inr)
  have e: "map fst (ur_puts ?run) = put_indices ?pl"
    using handleUpload_pool(1) [OF assms] by (simp add: put_indices_def)
  have c: "mset (map fst (ur_puts ?run)) \<subseteq># mset q"
    unfolding e by (rule reachable_put_indices)
  have d: "um_status (ur_state ?run) = StUploadComplete \<longrightarrow> mset (map fst (ur_puts ?run)) = mset q"
  proof
    assume "um_status (ur_state ?run) = StUploadComplete"
    then have "Promise_all ?pl = Resolved" by (rule handleUpload_pool(2) [OF assms])
    then show "mset (map fst (ur_puts ?run)) = mset q"
      unfolding e by (rule reachable_resolved(3))
  qed
  from a b c d show ?thesis by blast
qed

theorem uploads_exactly_the_queue_witness:
  "um_file demo_state = Some demo_file \<and>
   env_create env_resume (session_create_payload demo_file (um_chunkSize demo_state)
       (sha256HexFromFile demo_digest demo_file)) = Inr demo_session \<and>
   env_probe env_resume = Inr (status_answer [0] [1, 2] ''uploading'') \<and>
   upload_queue (status_answer [0] [1, 2] ''uploading'')
       (total_chunks demo_file (um_chunkSize demo_state)) = Inr [1, 2] \<and>
   st_missing (status_answer [0] [1, 2] ''uploading'') \<noteq> [] \<and>
   um_status (ur_state (handleUpload ''/api'' demo_digest ''tok'' env_resume demo_state))
       = StUploadComplete \<and>
   mset (map fst (ur_puts (handleUpload ''/api'' demo_digest ''tok'' env_resume demo_state)))
       = mset [1, 2] \<and>
   env_probe env_all_received = Inr (status_answer [0, 1, 2] [] ''uploading'') \<and>
   st_missing (status_answer [0, 1, 2] [] ''uploading'') = [] \<and>
   upload_queue (status_answer [0, 1, 2] [] ''uploading'')
       (total_chunks demo_file (um_chunkSize demo_state)) = Inr (map int [0..<nat 3])"
proof -
  have h: "um_file demo_state = Some demo_file"
    "env_create env_resume (session_create_payload demo_file (um_chunkSize demo_state)
       (sha256HexFromFile demo_digest demo_file)) = Inr demo_session"
    "env_probe env_resume = Inr (status_answer [0] [1, 2] ''uploading'')"
    "upload_queue (status_answer [0] [1, 2] ''uploading'')
       (total_chunks demo_file (um_chunkSize demo_state)) = Inr [1, 2]"
    by (simp_all add: demo_state_def env_resume_def demo_queue)
  have g: "env_create env_all_received (session_create_payload demo_file (um_chunkSize demo_state)
       (sha256HexFromFile demo_digest demo_file)) = Inr demo_session"
    "env_probe env_all_received = Inr (status_answer [0, 1, 2] [] ''uploading'')"
    "upload_queue (status_answer [0, 1, 2] [] ''uploading'')
       (total_chunks demo_file (um_chunkSize demo_state)) = Inr [0, 1, 2]"
    by (simp_all add: demo_state_def env_all_received_def demo_queue)
  have m: "st_missing (status_answer [0] [1, 2] ''uploading'') \<noteq> []"
    "st_missing (status_answer [0, 1, 2] [] ''uploading'') = []"
    by (simp_all add: status_answer_def)
  from uploads_exactly_the_queue [OF h, of "''/api''" "''tok''"]
    uploads_exactly_the_queue [OF h(1) g, of "''/api''" "''tok''"]
  show ?thesis
    using h g m by (simp add: demo_upload_runs demo_queue numeral_3_eq_3)
qed

section \<open>A failed chunk upload\<close>

lemma step_rejection: "rejection s = Some e0 \<Longrightarrow> rejection (step cx ev s) = Some e0"
  by (cases ev)
     (auto simp: worker_throws_def worker_loop_def split: worker.split sum.split list.split)

lemma run_events_rejection:
  "rejection s = Some e0 \<Longrightarrow> rejection (run_events cx evs s) = Some e0"
  by (induction evs arbitrary: s) (simp_all add: step_rejection)

lemma step_crashed:
  "w < length (workers s) \<Longrightarrow> workers s ! w = Crashed err \<Longrightarrow>
   workers (step cx ev s) ! w = Crashed err"
  by (cases ev)
     (auto simp: worker_throws_def worker_loop_def nth_list_update
        split: worker.split sum.split list.split)

lemma run_events_crashed:
  "w < length (workers s) \<Longrightarrow> workers s ! w = Crashed err \<Longrightarrow>
   workers (run_events cx evs s) ! w = Crashed err"
  by (induction evs arbitrary: s) (simp_all add: step_crashed)

lemma Promise_all_rejected: "rejection s = Some e0 \<Longrightarrow> Promise_all s = Rejected e0"
  by (simp add: Promise_all_def)

lemma failed_put_step:
  assumes "w < length (workers s)" "workers s ! w = Uploading i" "uploadChunk_response r = Inl err"
  shows "step cx (FetchSettled w r) s = worker_throws w err s"
    and "workers (worker_throws w err s) ! w = Crashed err"
    and "rejection (worker_throws w err s) = Some (case rejection s of None \<Rightarrow> err | Some e0 \<Rightarrow> e0)"
  using assms by (simp_all add: worker_throws_def split: option.split)

text \<open>
  C3, as the claim states it, fails: the server answers the PUT of chunk 0 with status 500,
  and the run ends with the terminal error after this one request; there is no second
  attempt.
\<close>

theorem single_attempt_counterexample:
  "env_events env_chunk_fails = [DigestResolved 0 ''u0'', FetchSettled 0 fail_response] \<and>
   uploadChunk_response fail_response = Inl (Error ''boom'') \<and>
   map fst (ur_puts (handleUpload ''/api'' demo_digest ''tok'' env_chunk_fails demo_state)) = [0] \<and>
   um_status (ur_state (handleUpload ''/api'' demo_digest ''tok'' env_chunk_fails demo_state))
     = StErrorOccurred \<and>
   um_error (ur_state (handleUpload ''/api'' demo_digest ''tok'' env_chunk_fails demo_state))
     = Some (Message ''boom'')"
proof -
  have "env_events env_chunk_fails = [DigestResolved 0 ''u0'', FetchSettled 0 fail_response]"
    by (simp add: env_chunk_fails_def failing_events_def)
  moreover have "uploadChunk_response fail_response = Inl (Error ''boom'')"
    by (simp add: uploadChunk_response_def fail_response_def response_ok_def or_else_def)
  ultimately show ?thesis
    using demo_upload_runs(5,6,7) by blast
qed

text \<open>
  C3, amended. A chunk upload fails when the response is not ok (the error carries the
  response text, or \<open>Chunk upload failed (status)\<close> when the text is empty) or when the
  network fails. The scheduler does not retry: the worker of the failed request throws and
  never resumes, the failed request is not issued again (in any run an index is requested
  at most as often as it is queued), the run is rejected with the first error thrown and
  stays rejected, and \<open>handleUpload\<close> reports the message of that error as the terminal
  error without calling finalize: the run makes no \<open>finalizeSession\<close> call and no
  status request, does not call \<open>onUploadComplete\<close>, leaves the file id and the
  finalizing flag untouched, and is the same whatever finalize and the status requests
  would have answered.
\<close>

theorem chunk_failure_is_terminal:
  fixes base token :: string
  shows
  "(w < length (workers s) \<and> workers s ! w = Uploading i \<and> uploadChunk_response r = Inl err \<longrightarrow>
      (let s' = step cx (FetchSettled w r) s in
         workers s' ! w = Crashed err \<and> puts s' = puts s \<and> uploadQueue s' = uploadQueue s \<and>
         Promise_all s' = Rejected (case rejection s of None \<Rightarrow> err | Some e0 \<Rightarrow> e0) \<and>
         (\<forall>evs'. workers (run_events cx evs' s') ! w = Crashed err \<and>
                 Promise_all (run_events cx evs' s') = Promise_all s'))) \<and>
   mset (put_indices (run_events cx evs (start_pool q n))) \<subseteq># mset q \<and>
   uploadChunk_response (Response resp) =
     (if response_ok resp then Inr ()
      else Inl (Error (if rs_text resp \<noteq> [] then rs_text resp
                       else ''Chunk upload failed ('' @ String_of_int (int (rs_status resp)) @ '')''))) \<and>
   uploadChunk_response (NetworkError m) = Inl (TypeError m) \<and>
   (um_file st = Some f \<and>
    env_create env (session_create_payload f (um_chunkSize st) (sha256HexFromFile digest f))
      = Inr session \<and>
    env_probe env = Inr probe \<and>
    upload_queue probe (total_chunks f (um_chunkSize st)) = Inr q' \<and>
    Promise_all (run_events
        \<lparr> cx_api_base = base, cx_token = token, cx_session = us_upload_session_id session,
          cx_file = f, cx_chunk_size = um_chunkSize st, cx_digest = digest \<rparr>
        (env_events env) (start_pool q' (length (remdups (st_received probe))))) = Rejected err' \<longrightarrow>
      um_status (ur_state (handleUpload base digest token env st)) = StErrorOccurred \<and>
      um_error (ur_state (handleUpload base digest token env st))
        = Some (Message (error_message err')) \<and>
      ur_finalized (handleUpload base digest token env st) = 0 \<and>
      ur_polls (handleUpload base digest token env st) = 0 \<and>
      ur_completed (handleUpload base digest token env st) = 0 \<and>
      um_fileId (ur_state (handleUpload base digest token env st)) = um_fileId st \<and>
      um_finalizing (ur_state (handleUpload base digest token env st)) = um_finalizing st \<and>
      handleUpload base digest token (env\<lparr>env_finalize := fin, env_status := gs\<rparr>) st
        = handleUpload base digest token env st)"
proof -
  have a: "w < length (workers s) \<and> workers s ! w = Uploading i \<and> uploadChunk_response r = Inl err \<longrightarrow>
      (let s' = step cx (FetchSettled w r) s in
         workers s' ! w = Crashed err \<and> puts s' = puts s \<and> uploadQueue s' = uploadQueue s \<and>
         Promise_all s' = Rejected (case rejection s of None \<Rightarrow> err | Some e0 \<Rightarrow> e0) \<and>
         (\<forall>evs'. workers (run_events cx evs' s') ! w = Crashed err \<and>
                 Promise_all (run_events cx evs' s') = Promise_all s'))"
  proof (intro impI, elim conjE)
    assume h: "w < length (workers s)" "workers s ! w = Uploading i" "uploadChunk_response r = Inl err"
    let ?s' = "worker_throws w err s"
    let ?e = "case rejection s of None \<Rightarrow> err | Some e0 \<Rightarrow> e0"
    note f = failed_put_step [OF h]
    have len: "w < length (workers ?s')" using h(1) by (simp add: worker_throws_def)
    have rej: "Promise_all ?s' = Rejected ?e" using f(3) by (rule Promise_all_rejected)
    have later: "workers (run_events cx evs' ?s') ! w = Crashed err \<and>
                 Promise_all (run_events cx evs' ?s') = Promise_all ?s'" for evs'
      using run_events_crashed [OF len f(2)] run_events_rejection [OF f(3)] rej
      by (simp add: Promise_all_rejected)
    show "let s' = step cx (FetchSettled w r) s in
         workers s' ! w = Crashed err \<and> puts s' = puts s \<and> uploadQueue s' = uploadQueue s \<and>
         Promise_all s' = Rejected ?e \<and>
         (\<forall>evs'. workers (run_events cx evs' s') ! w = Crashed err \<and>
                 Promise_all (run_events cx evs' s') = Promise_all s')"
      unfolding Let_def f(1) using f(2) rej later by (simp add: worker_throws_def)
  qed
  have b: "mset (put_indices (run_events cx evs (start_pool q n))) \<subseteq># mset q"
    by (rule reachable_put_indices)
  have c: "uploadChunk_response (Response resp) =
     (if response_ok resp then Inr ()
      else Inl (Error (if rs_text resp \<noteq> [] then rs_text resp
                       else ''Chunk upload failed ('' @ String_of_int (int (rs_status resp)) @ '')'')))"
    "uploadChunk_response (NetworkError m) = Inl (TypeError m)"
    by (simp_all add: uploadChunk_response_def or_else_def)
  have d: "um_file st = Some f \<and>
    env_create env (session_create_payload f (um_chunkSize st) (sha256HexFromFile digest f))
      = Inr session \<and>
    env_probe env = Inr probe \<and>
    upload_queue probe (total_chunks f (um_chunkSize st)) = Inr q' \<and>
    Promise_all (run_events
        \<lparr> cx_api_base = base, cx_token = token, cx_session = us_upload_session_id session,
          cx_file = f, cx_chunk_size = um_chunkSize st, cx_digest = digest \<rparr>
        (env_events env) (start_pool q' (length (remdups (st_received probe))))) = Rejected err' \<longrightarrow>
      um_status (ur_state (handleUpload base digest token env st)) = StErrorOccurred \<and>
      um_error (ur_state (handleUpload base digest token env st))
        = Some (Message (error_message err')) \<and>
      ur_finalized (handleUpload base digest token env st) = 0 \<and>
      ur_polls (handleUpload base digest token env st) = 0 \<and>
      ur_completed (handleUpload base digest token env st) = 0 \<and>
      um_fileId (ur_state (handleUpload base digest token env st)) = um_fileId st \<and>
      um_finalizing (ur_state (handleUpload base digest token env st)) = um_finalizing st \<and>
      handleUpload base digest token (env\<lparr>env_finalize := fin, env_status := gs\<rparr>) st
        = handleUpload base digest token env st"
  proof (intro impI, elim conjE)
    assume h: "um_file st = Some f"
      "env_create env (session_create_payload f (um_chunkSize st) (sha256HexFromFile digest f))
         = Inr session"
      "env_probe env = Inr probe"
      "upload_queue probe (total_chunks f (um_chunkSize st)) = Inr q'"
      and r: "Promise_all (run_events
        \<lparr> cx_api_base = base, cx_token = token, cx_session = us_upload_session_id session,
          cx_file = f, cx_chunk_size = um_chunkSize st, cx_digest = digest \<rparr>
        (env_events env) (start_pool q' (length (remdups (st_received probe))))) = Rejected err'"
    from handleUpload_pool(3) [OF h r] handleUpload_rejected [OF h r]
    show "um_status (ur_state (handleUpload base digest token env st)) = StErrorOccurred \<and>
      um_error (ur_state (handleUpload base digest token env st))
        = Some (Message (error_message err')) \<and>
      ur_finalized (handleUpload base digest token env st) = 0 \<and>
      ur_polls (handleUpload base digest token env st) = 0 \<and>
      ur_completed (handleUpload base digest token env st) = 0 \<and>
      um_fileId (ur_state (handleUpload base digest token env st)) = um_fileId st \<and>
      um_finalizing (ur_state (handleUpload base digest token env st)) = um_finalizing st \<and>
      handleUpload base digest token (env\<lparr>env_finalize := fin, env_status := gs\<rparr>) st
        = handleUpload base digest token env st"
      by blast
  qed
  from a b c d show ?thesis by blast
qed

lemma one_put_state_workers:
  "workers one_put_state = [Uploading 0, Hashing 1, Hashing 2]"
  "rejection one_put_state = None"
  by (simp_all add: one_put_state_def start_pool_def MAX_CONCURRENCY_def worker_loop_def
      numeral_3_eq_3)

theorem chunk_failure_is_terminal_witness:
  "0 < length (workers one_put_state) \<and> workers one_put_state ! 0 = Uploading 0 \<and>
   uploadChunk_response fail_response = Inl (Error ''boom'') \<and>
   workers (step demo_ctx (FetchSettled 0 fail_response) one_put_state) ! 0 = Crashed (Error ''boom'') \<and>
   puts (step demo_ctx (FetchSettled 0 fail_response) one_put_state) = puts one_put_state \<and>
   Promise_all (step demo_ctx (FetchSettled 0 fail_response) one_put_state) = Rejected (Error ''boom'') \<and>
   um_file demo_state = Some demo_file \<and>
   env_create env_chunk_fails (session_create_payload demo_file (um_chunkSize demo_state)
       (sha256HexFromFile demo_digest demo_file)) = Inr demo_session \<and>
   env_probe env_chunk_fails = Inr (status_answer [] [0, 1, 2] ''init'') \<and>
   upload_queue (status_answer [] [0, 1, 2] ''init'')
       (total_chunks demo_file (um_chunkSize demo_state)) = Inr [0, 1, 2] \<and>
   um_status (ur_state (handleUpload ''/api'' demo_digest ''tok'' env_chunk_fails demo_state))
     = StErrorOccurred \<and>
   um_error (ur_state (handleUpload ''/api'' demo_digest ''tok'' env_chunk_fails demo_state))
     = Some (Message (error_message (Error ''boom''))) \<and>
   ur_finalized (handleUpload ''/api'' demo_digest ''tok'' env_chunk_fails demo_state) = 0 \<and>
   ur_polls (handleUpload ''/api'' demo_digest ''tok'' env_chunk_fails demo_state) = 0 \<and>
   ur_completed (handleUpload ''/api'' demo_digest ''tok'' env_chunk_fails demo_state) = 0 \<and>
   um_fileId (ur_state (handleUpload ''/api'' demo_digest ''tok'' env_chunk_fails demo_state))
     = um_fileId demo_state \<and>
   um_finalizing (ur_state (handleUpload ''/api'' demo_digest ''tok'' env_chunk_fails demo_state))
     = um_finalizing demo_state \<and>
   handleUpload ''/api'' demo_digest ''tok''
       (env_chunk_fails\<lparr>env_finalize := Inr processing_result, env_status := always_failed\<rparr>)
       demo_state
     = handleUpload ''/api'' demo_digest ''tok'' env_chunk_fails demo_state"
proof -
  note inst = chunk_failure_is_terminal [where w = 0 and s = one_put_state and i = 0
      and r = fail_response and err = "Error ''boom''" and cx = demo_ctx
      and st = demo_state and f = demo_file and env = env_chunk_fails and digest = demo_digest
      and session = demo_session and probe = "status_answer [] [0, 1, 2] ''init''"
      and q' = "[0, 1, 2]" and base = "''/api''" and token = "''tok''"
      and err' = "Error ''boom''" and fin = "Inr processing_result"
      and gs = always_failed, unfolded Let_def]
  have h1: "0 < length (workers one_put_state)" "workers one_put_state ! 0 = Uploading 0"
    by (simp_all add: one_put_state_workers)
  have h2: "uploadChunk_response fail_response = Inl (Error ''boom'')"
    by (simp add: uploadChunk_response_def fail_response_def response_ok_def or_else_def)
  have h3: "um_file demo_state = Some demo_file"
    "env_create env_chunk_fails (session_create_payload demo_file (um_chunkSize demo_state)
       (sha256HexFromFile demo_digest demo_file)) = Inr demo_session"
    "env_probe env_chunk_fails = Inr (status_answer [] [0, 1, 2] ''init'')"
    "upload_queue (status_answer [] [0, 1, 2] ''init'')
       (total_chunks demo_file (um_chunkSize demo_state)) = Inr [0, 1, 2]"
    by (simp_all add: demo_state_def env_chunk_fails_def demo_queue)
  have h4: "Promise_all (run_events
        \<lparr> cx_api_base = ''/api'', cx_token = ''tok'', cx_session = us_upload_session_id demo_session,
          cx_file = demo_file, cx_chunk_size = um_chunkSize demo_state, cx_digest = demo_digest \<rparr>
        (env_events env_chunk_fails)
        (start_pool [0, 1, 2] (length (remdups (st_received (status_answer [] [0, 1, 2] ''init''))))))
      = Rejected (Error ''boom'')"
    by (simp add: env_chunk_fails_def failing_run)
  have h5: "(case rejection one_put_state of None \<Rightarrow> Error ''boom'' | Some e0 \<Rightarrow> e0) = Error ''boom''"
    by (simp add: one_put_state_workers)
  from inst h1 h2 h3 h4 show ?thesis
    unfolding h5 by blast
qed

section \<open>Finalize and the status poll\<close>

lemma poll_loop_exhausted:
  assumes "\<And>j. attempt \<le> j \<Longrightarrow> j < 60 \<Longrightarrow> \<exists>s. getStatus j = Inr s \<and> st_status s \<noteq> ''completed''"
  shows "poll_loop getStatus attempt = PollExhausted"
  using assms
proof (induction getStatus attempt rule: poll_loop.induct)
  case (1 getStatus attempt)
  show ?case
  proof (cases "attempt < 60")
    case False
    then show ?thesis by (subst poll_loop.simps) simp
  next
    case True
    then obtain s where s: "getStatus attempt = Inr s" "st_status s \<noteq> ''completed''"
      using "1.prems" [of attempt] by auto
    have "poll_loop getStatus (attempt + 1) = PollExhausted"
      by (rule "1.IH" [OF True s]) (use "1.prems" in auto)
    with True s show ?thesis by (subst poll_loop.simps) simp
  qed
qed

lemma poll_loop_first:
  assumes "attempt \<le> k" "k < 60"
    and "\<And>j. attempt \<le> j \<Longrightarrow> j < k \<Longrightarrow> \<exists>s. getStatus j = Inr s \<and> st_status s \<noteq> ''completed''"
  shows "poll_loop getStatus attempt =
           (case getStatus k of
              Inl e \<Rightarrow> PollThrew e (k + 1)
            | Inr s \<Rightarrow> if st_status s = ''completed'' then PollCompleted (k + 1)
                       else poll_loop getStatus (k + 1))"
  using assms
proof (induction getStatus attempt rule: poll_loop.induct)
  case (1 getStatus attempt)
  show ?case
  proof (cases "attempt = k")
    case True
    with "1.prems"(2) show ?thesis by (subst poll_loop.simps) (simp split: sum.split)
  next
    case False
    with "1.prems" have lt: "attempt < k" "attempt < 60" by simp_all
    then obtain s where s: "getStatus attempt = Inr s" "st_status s \<noteq> ''completed''"
      using "1.prems"(3) [of attempt] by auto
    have "poll_loop getStatus (attempt + 1) =
           (case getStatus k of
              Inl e \<Rightarrow> PollThrew e (k + 1)
            | Inr s \<Rightarrow> if st_status s = ''completed'' then PollCompleted (k + 1)
                       else poll_loop getStatus (k + 1))"
      by (rule "1.IH" [OF lt(2) s]) (use lt "1.prems" in auto)
    with lt s show ?thesis by (subst poll_loop.simps) simp
  qed
qed

lemma poll_loop_count:
  "poll_loop getStatus attempt = PollCompleted n \<Longrightarrow> n \<le> 60"
  "poll_loop getStatus attempt = PollThrew e n \<Longrightarrow> n \<le> 60"
proof (induction getStatus attempt rule: poll_loop.induct)
  case (1 getStatus attempt)
  {
    case 1
    then show ?case
      using "1.IH"(1)
      by (subst (asm) poll_loop.simps) (auto split: if_splits sum.splits)
  next
    case 2
    then show ?case
      using "1.IH"(2)
      by (subst (asm) poll_loop.simps) (auto split: if_splits sum.splits)
  }
qed

lemma always_failed_exhausts: "poll_loop always_failed 0 = PollExhausted"
  by (rule poll_loop_exhausted) (simp add: always_failed_def status_answer_def)

text \<open>
  The whole handler at such a server: finalize answers \<open>processing\<close>, every status
  request is answered \<open>failed\<close>, and after 60 requests the client announces a finished
  upload and calls \<open>onUploadComplete\<close>.
\<close>

lemma never_completed_run:
  "env_finalize env_never_completes = Inr processing_result \<and>
   fr_status processing_result = ''processing'' \<and>
   env_status env_never_completes 0 = Inr (status_answer [0, 1, 2] [] ''failed'') \<and>
   env_status env_never_completes 59 = Inr (status_answer [0, 1, 2] [] ''failed'') \<and>
   um_status (ur_state (handleUpload ''/api'' demo_digest ''tok'' env_never_completes demo_state))
     = StUploadComplete \<and>
   ur_completed (handleUpload ''/api'' demo_digest ''tok'' env_never_completes demo_state) = 1 \<and>
   ur_polls (handleUpload ''/api'' demo_digest ''tok'' env_never_completes demo_state) = 60"
  by (simp add: handleUpload_def demo_state_def env_never_completes_def demo_queue
      demo_events_run Let_def demo_session_def finalize_phase_def processing_result_def
      announce_complete_def always_failed_exhausts)
    (simp add: always_failed_def)

text \<open>
  C8. The client must poll until the session is in a terminal state and announce success
  only for a completed session. The code does not: whenever finalize returns a status other
  than \<open>completed\<close> and none of the 60 status answers is \<open>completed\<close> (the session
  has failed, or is still being merged), the loop ends, control falls through to the
  statements after it, and the client announces the finished upload, sets 100 percent and
  calls \<open>onUploadComplete\<close>, after exactly 60 status requests and without an error
  message.
\<close>

theorem exhausted_poll_announces_success:
  "fr_status fin \<noteq> ''completed'' \<and>
   (\<forall>j<60. \<exists>s. getStatus j = Inr s \<and> st_status s \<noteq> ''completed'') \<longrightarrow>
     (case finalize_phase (Inr fin) getStatus st of
        (st', completed, polls) \<Rightarrow>
          um_status st' = StUploadComplete \<and> um_progressPercent st' = 100 \<and>
          um_error st' = um_error st \<and> completed = 1 \<and> polls = 60)"
proof (intro impI, elim conjE)
  assume n: "fr_status fin \<noteq> ''completed''"
    and a: "\<forall>j<60. \<exists>s. getStatus j = Inr s \<and> st_status s \<noteq> ''completed''"
  have "poll_loop getStatus 0 = PollExhausted"
    by (rule poll_loop_exhausted) (use a in auto)
  with n show "case finalize_phase (Inr fin) getStatus st of
        (st', completed, polls) \<Rightarrow>
          um_status st' = StUploadComplete \<and> um_progressPercent st' = 100 \<and>
          um_error st' = um_error st \<and> completed = 1 \<and> polls = 60"
    by (simp add: finalize_phase_def Let_def announce_complete_def)
qed

theorem exhausted_poll_announces_success_witness:
  "fr_status processing_result \<noteq> ''completed'' \<and>
   always_failed 0 = Inr (status_answer [0, 1, 2] [] ''failed'') \<and>
   always_failed 59 = Inr (status_answer [0, 1, 2] [] ''failed'') \<and>
   st_status (status_answer [0, 1, 2] [] ''failed'') = ''failed'' \<and>
   (case finalize_phase (Inr processing_result) always_failed demo_state of
      (st', completed, polls) \<Rightarrow>
        um_status st' = StUploadComplete \<and> um_progressPercent st' = 100 \<and>
        um_error st' = um_error demo_state \<and> completed = 1 \<and> polls = 60)"
proof -
  have h1: "fr_status processing_result \<noteq> ''completed''"
    by (simp add: processing_result_def)
  have h2: "\<forall>j<60. \<exists>s. always_failed j = Inr s \<and> st_status s \<noteq> ''completed''"
    by (simp add: always_failed_def status_answer_def)
  have h3: "always_failed 0 = Inr (status_answer [0, 1, 2] [] ''failed'')"
    "always_failed 59 = Inr (status_answer [0, 1, 2] [] ''failed'')"
    "st_status (status_answer [0, 1, 2] [] ''failed'') = ''failed''"
    by (simp_all add: always_failed_def status_answer_def)
  have c: "case finalize_phase (Inr processing_result) always_failed demo_state of
      (st', completed, polls) \<Rightarrow>
        um_status st' = StUploadComplete \<and> um_progressPercent st' = 100 \<and>
        um_error st' = um_error demo_state \<and> completed = 1 \<and> polls = 60"
    by (rule exhausted_poll_announces_success [where fin = processing_result
          and getStatus = always_failed and st = demo_state, THEN mp])
       (intro conjI; fact)
  show ?thesis
    by (intro conjI; fact)
qed

text \<open>
  What the loop does before it is exhausted: at the first answer whose status is
  \<open>completed\<close> it stops and the client announces the finished upload; a status request
  that fails ends the run with the error and without the announcement; when finalize itself
  returns \<open>completed\<close> there is no status request; and there are never more than 60.
\<close>

lemma poll_stops_at_completed:
  "(fr_status fin \<noteq> ''completed'' \<and> k < 60 \<and>
    (\<forall>j<k. \<exists>s. getStatus j = Inr s \<and> st_status s \<noteq> ''completed'') \<and>
    getStatus k = Inr s \<and> st_status s = ''completed'' \<longrightarrow>
      (case finalize_phase (Inr fin) getStatus st of
         (st', completed, polls) \<Rightarrow>
           um_status st' = StUploadComplete \<and> completed = 1 \<and> polls = k + 1)) \<and>
   (fr_status fin \<noteq> ''completed'' \<and> k < 60 \<and>
    (\<forall>j<k. \<exists>s. getStatus j = Inr s \<and> st_status s \<noteq> ''completed'') \<and>
    getStatus k = Inl err \<longrightarrow>
      (case finalize_phase (Inr fin) getStatus st of
         (st', completed, polls) \<Rightarrow>
           um_status st' = StErrorOccurred \<and> um_error st' = Some (Message (error_message err)) \<and>
           completed = 0 \<and> polls = k + 1)) \<and>
   (fr_status fin = ''completed'' \<longrightarrow>
      (case finalize_phase (Inr fin) getStatus st of
         (st', completed, polls) \<Rightarrow>
           um_status st' = StUploadComplete \<and> completed = 1 \<and> polls = 0)) \<and>
   snd (snd (finalize_phase fin' getStatus st)) \<le> 60"
proof -
  have first: "poll_loop getStatus 0 =
           (case getStatus k of
              Inl e \<Rightarrow> PollThrew e (k + 1)
            | Inr s \<Rightarrow> if st_status s = ''completed'' then PollCompleted (k + 1)
                       else poll_loop getStatus (k + 1))"
    if "k < 60" "\<forall>j<k. \<exists>s. getStatus j = Inr s \<and> st_status s \<noteq> ''completed''"
    using that by (intro poll_loop_first) auto
  have a: "fr_status fin \<noteq> ''completed'' \<and> k < 60 \<and>
    (\<forall>j<k. \<exists>s. getStatus j = Inr s \<and> st_status s \<noteq> ''completed'') \<and>
    getStatus k = Inr s \<and> st_status s = ''completed'' \<longrightarrow>
      (case finalize_phase (Inr fin) getStatus st of
         (st', completed, polls) \<Rightarrow>
           um_status st' = StUploadComplete \<and> completed = 1 \<and> polls = k + 1)"
    using first by (auto simp: finalize_phase_def Let_def announce_complete_def)
  have b: "fr_status fin \<noteq> ''completed'' \<and> k < 60 \<and>
    (\<forall>j<k. \<exists>s. getStatus j = Inr s \<and> st_status s \<noteq> ''completed'') \<and>
    getStatus k = Inl err \<longrightarrow>
      (case finalize_phase (Inr fin) getStatus st of
         (st', completed, polls) \<Rightarrow>
           um_status st' = StErrorOccurred \<and> um_error st' = Some (Message (error_message err)) \<and>
           completed = 0 \<and> polls = k + 1)"
    using first by (auto simp: finalize_phase_def Let_def catch_upload_def)
  have c: "fr_status fin = ''completed'' \<longrightarrow>
      (case finalize_phase (Inr fin) getStatus st of
         (st', completed, polls) \<Rightarrow>
           um_status st' = StUploadComplete \<and> completed = 1 \<and> polls = 0)"
    by (simp add: finalize_phase_def Let_def announce_complete_def)
  have d: "snd (snd (finalize_phase fin' getStatus st)) \<le> 60"
    using poll_loop_count [of getStatus 0]
    by (auto simp: finalize_phase_def Let_def split: sum.split poll_outcome.split)
  from a b c d show ?thesis by blast
qed

lemma demo_polls:
  "poll_loop completes_third 0 = PollCompleted 3"
  "poll_loop second_poll_fails 0 = PollThrew (Error ''Request failed (502)'') 2"
  by (simp_all add: poll_loop.simps completes_third_def second_poll_fails_def status_answer_def)

lemma poll_stops_at_completed_demo:
  "fr_status processing_result \<noteq> ''completed'' \<and> (2::nat) < 60 \<and>
   completes_third 0 = Inr (status_answer [0, 1, 2] [] ''finalizing'') \<and>
   completes_third 1 = Inr (status_answer [0, 1, 2] [] ''finalizing'') \<and>
   st_status (status_answer [0, 1, 2] [] ''finalizing'') \<noteq> ''completed'' \<and>
   completes_third 2 = Inr (status_answer [0, 1, 2] [] ''completed'') \<and>
   st_status (status_answer [0, 1, 2] [] ''completed'') = ''completed'' \<and>
   (case finalize_phase (Inr processing_result) completes_third demo_state of
      (st', completed, polls) \<Rightarrow>
        um_status st' = StUploadComplete \<and> completed = 1 \<and> polls = 2 + 1) \<and>
   (1::nat) < 60 \<and>
   second_poll_fails 0 = Inr (status_answer [0, 1, 2] [] ''finalizing'') \<and>
   second_poll_fails 1 = Inl (Error ''Request failed (502)'') \<and>
   (case finalize_phase (Inr processing_result) second_poll_fails demo_state of
      (st', completed, polls) \<Rightarrow>
        um_status st' = StErrorOccurred \<and>
        um_error st' = Some (Message (error_message (Error ''Request failed (502)''))) \<and>
        completed = 0 \<and> polls = 1 + 1) \<and>
   fr_status demo_finalized = ''completed'' \<and>
   (case finalize_phase (Inr demo_finalized) always_failed demo_state of
      (st', completed, polls) \<Rightarrow>
        um_status st' = StUploadComplete \<and> completed = 1 \<and> polls = 0)"
proof -
  have h1: "fr_status processing_result \<noteq> ''completed''" "(2::nat) < 60" "(1::nat) < 60"
    "fr_status demo_finalized = ''completed''"
    by (simp_all add: processing_result_def demo_finalized_def)
  have h2: "\<forall>j<2. \<exists>s. completes_third j = Inr s \<and> st_status s \<noteq> ''completed''"
    "completes_third 2 = Inr (status_answer [0, 1, 2] [] ''completed'')"
    "st_status (status_answer [0, 1, 2] [] ''completed'') = ''completed''"
    by (simp_all add: completes_third_def status_answer_def)
  have h3: "\<forall>j<1. \<exists>s. second_poll_fails j = Inr s \<and> st_status s \<noteq> ''completed''"
    "second_poll_fails 1 = Inl (Error ''Request failed (502)'')"
    by (simp_all add: second_poll_fails_def status_answer_def)
  have h4: "completes_third 0 = Inr (status_answer [0, 1, 2] [] ''finalizing'')"
    "completes_third 1 = Inr (status_answer [0, 1, 2] [] ''finalizing'')"
    "st_status (status_answer [0, 1, 2] [] ''finalizing'') \<noteq> ''completed''"
    "second_poll_fails 0 = Inr (status_answer [0, 1, 2] [] ''finalizing'')"
    by (simp_all add: completes_third_def second_poll_fails_def status_answer_def)
  have c1: "case finalize_phase (Inr processing_result) completes_third demo_state of
      (st', completed, polls) \<Rightarrow>
        um_status st' = StUploadComplete \<and> completed = 1 \<and> polls = 2 + 1"
    by (rule poll_stops_at_completed [where fin = processing_result and k = 2
          and getStatus = completes_third and s = "status_answer [0, 1, 2] [] ''completed''"
          and st = demo_state, THEN conjunct1, THEN mp])
       (intro conjI; fact)
  have c2: "case finalize_phase (Inr processing_result) second_poll_fails demo_state of
      (st', completed, polls) \<Rightarrow>
        um_status st' = StErrorOccurred \<and>
        um_error st' = Some (Message (error_message (Error ''Request failed (502)''))) \<and>
        completed = 0 \<and> polls = 1 + 1"
    by (rule poll_stops_at_completed [where fin = processing_result and k = 1
          and getStatus = second_poll_fails and err = "Error ''Request failed (502)''"
          and st = demo_state, THEN conjunct2, THEN conjunct1, THEN mp])
       (intro conjI; fact)
  have c3: "case finalize_phase (Inr demo_finalized) always_failed demo_state of
      (st', completed, polls) \<Rightarrow>
        um_status st' = StUploadComplete \<and> completed = 1 \<and> polls = 0"
    by (rule poll_stops_at_completed [where fin = demo_finalized and getStatus = always_failed
          and st = demo_state, THEN conjunct2, THEN conjunct2, THEN conjunct1, THEN mp])
       fact
  show ?thesis
    by (intro conjI; fact)
qed

section \<open>apiFetch\<close>

lemma apiFetch_request_url: "rq_url (apiFetch_request base path options token) = base @ path"
  by (simp add: apiFetch_request_def Let_def split: option.split)

lemma demo_fetch_answers:
  "demo_fetch (apiFetch_request ''/api'' ''/a'' get_options (Some ''tok'')) = Response answer_not_found"
  "demo_fetch (apiFetch_request ''/api'' ''/b'' get_options (Some ''tok'')) = Response answer_failure"
  "demo_fetch (apiFetch_request ''/api'' ''/c'' get_options (Some ''tok'')) = Response answer_no_content"
  "demo_fetch (apiFetch_request ''/api'' ''/d'' get_options (Some ''tok'')) = Response answer_json"
  "demo_fetch (apiFetch_request ''/api'' ''/e'' get_options (Some ''tok'')) = Response answer_text"
  "demo_fetch (apiFetch_request ''/api'' ''/f'' get_options (Some ''tok'')) = Response answer_empty_json"
  "demo_fetch (apiFetch_request ''/api'' ''/g'' get_options (Some ''tok'')) = Response answer_two_types"
  by (simp_all add: demo_fetch_def apiFetch_request_url)

lemma demo_answers:
  "\<not> response_ok answer_not_found" "rs_text answer_not_found = ''not found''"
  "\<not> response_ok answer_failure" "rs_text answer_failure = []" "rs_status answer_failure = 500"
  "rs_status answer_no_content = 204"
  "response_ok answer_json" "rs_status answer_json \<noteq> 204" "rs_text answer_json = ''[]''"
  "response_ok answer_text" "rs_status answer_text \<noteq> 204" "rs_text answer_text = ''hello''"
  "response_ok answer_empty_json" "rs_status answer_empty_json \<noteq> 204"
  "rs_text answer_empty_json = []"
  "response_ok answer_two_types" "rs_status answer_two_types \<noteq> 204"
  "rs_text answer_two_types = ''[]''"
  by (simp_all add: response_ok_def answer_not_found_def answer_failure_def
      answer_no_content_def answer_json_def answer_text_def answer_empty_json_def
      answer_two_types_def)

lemma demo_content_types:
  "contentType_of answer_json = ''application/json; charset=utf-8''"
  "contentType_of answer_text = ''text/plain''"
  "contentType_of answer_empty_json = ''application/json''"
  "contentType_of answer_two_types = ''text/plain, application/json''"
  by (simp_all add: contentType_of_def headers_get_def header_names to_lower_def
      to_lower_char_def answer_json_def answer_text_def answer_empty_json_def
      answer_two_types_def)

lemma demo_parses:
  "demo_json_parse ''[]'' = Inr []"
  "demo_json_parse [] = Inl ''Unexpected end of JSON input''"
  by (simp_all add: demo_json_parse_def)

text \<open>
  C9, as the claim states it, fails: the response is ok (status 200), its
  \<open>Content-Type\<close> is \<open>application/json\<close> and its body is empty, and \<open>apiFetch\<close>
  throws, the \<open>SyntaxError\<close> of \<open>response.json()\<close>, instead of returning the parsed
  body.
\<close>

theorem ok_response_throws_counterexample:
  "demo_fetch (apiFetch_request ''/api'' ''/f'' get_options (Some ''tok''))
     = Response answer_empty_json \<and>
   response_ok answer_empty_json \<and>
   str_includes (contentType_of answer_empty_json) ''application/json'' \<and>
   apiFetch ''/api'' demo_fetch demo_json_parse ''/f'' get_options (Some ''tok'')
     = Inl (SyntaxError ''Unexpected end of JSON input'')"
  by (simp add: apiFetch_def demo_fetch_answers apiFetch_response_def demo_answers
      demo_content_types starts_with_def demo_parses)

text \<open>
  C9, amended. Given the response that \<open>fetch\<close> resolves with, \<open>apiFetch\<close> throws
  exactly in two cases: when the response is not ok, and then it throws an \<open>Error\<close> that
  carries the response text, or \<open>Request failed (status)\<close> when the text is empty; and
  when the response is ok, its status is not 204, its \<open>Content-Type\<close> includes
  \<open>application/json\<close> and its body is not JSON, and then it throws the
  \<open>SyntaxError\<close> of the parser. On status 204 it returns the empty object. On any other
  ok response it returns the parsed body when the \<open>Content-Type\<close> includes
  \<open>application/json\<close> and the body is JSON, and the text of the body when the
  \<open>Content-Type\<close> does not include it. The \<open>Content-Type\<close> is what
  \<open>response.headers.get\<close> gives (repeated headers joined), or the empty string.
\<close>

theorem apiFetch_outcome:
  assumes "fetch (apiFetch_request base path options token) = Response r"
  shows
  "((\<exists>e. apiFetch base fetch json_parse path options token = Inl e) \<longleftrightarrow>
      (\<not> response_ok r \<or>
       (response_ok r \<and> rs_status r \<noteq> 204 \<and>
        str_includes (contentType_of r) ''application/json'' \<and>
        (\<exists>m. json_parse (rs_text r) = Inl m)))) \<and>
   (\<not> response_ok r \<longrightarrow>
      apiFetch base fetch json_parse path options token =
        Inl (Error (if rs_text r \<noteq> [] then rs_text r
                    else ''Request failed ('' @ String_of_int (int (rs_status r)) @ '')''))) \<and>
   (rs_status r = 204 \<longrightarrow> apiFetch base fetch json_parse path options token = Inr EmptyObject) \<and>
   (response_ok r \<and> rs_status r \<noteq> 204 \<and> str_includes (contentType_of r) ''application/json'' \<and>
    json_parse (rs_text r) = Inr j \<longrightarrow>
      apiFetch base fetch json_parse path options token = Inr (JsonValue j)) \<and>
   (response_ok r \<and> rs_status r \<noteq> 204 \<and> str_includes (contentType_of r) ''application/json'' \<and>
    json_parse (rs_text r) = Inl m \<longrightarrow>
      apiFetch base fetch json_parse path options token = Inl (SyntaxError m)) \<and>
   (response_ok r \<and> rs_status r \<noteq> 204 \<and> \<not> str_includes (contentType_of r) ''application/json'' \<longrightarrow>
      apiFetch base fetch json_parse path options token = Inr (TextValue (rs_text r))) \<and>
   contentType_of r =
     (case headers_get ''Content-Type'' (rs_headers r) of None \<Rightarrow> [] | Some c \<Rightarrow> c)"
proof -
  have e: "apiFetch base fetch json_parse path options token = apiFetch_response json_parse r"
    using assms by (simp add: apiFetch_def)
  have ok204: "rs_status r = 204 \<Longrightarrow> response_ok r" by (simp add: response_ok_def)
  have ct: "contentType_of r =
     (case headers_get ''Content-Type'' (rs_headers r) of None \<Rightarrow> [] | Some c \<Rightarrow> c)"
    by (simp add: contentType_of_def)
  have a: "(\<exists>e. apiFetch_response json_parse r = Inl e) \<longleftrightarrow>
      (\<not> response_ok r \<or>
       (response_ok r \<and> rs_status r \<noteq> 204 \<and>
        str_includes (contentType_of r) ''application/json'' \<and>
        (\<exists>m. json_parse (rs_text r) = Inl m)))"
    using ok204 by (auto simp: apiFetch_response_def Let_def split: sum.splits)
  have b: "\<not> response_ok r \<longrightarrow>
      apiFetch_response json_parse r =
        Inl (Error (if rs_text r \<noteq> [] then rs_text r
                    else ''Request failed ('' @ String_of_int (int (rs_status r)) @ '')''))"
    by (simp add: apiFetch_response_def or_else_def)
  have c: "rs_status r = 204 \<longrightarrow> apiFetch_response json_parse r = Inr EmptyObject"
    using ok204 by (simp add: apiFetch_response_def)
  have d: "response_ok r \<and> rs_status r \<noteq> 204 \<and> str_includes (contentType_of r) ''application/json'' \<and>
    json_parse (rs_text r) = Inr j \<longrightarrow> apiFetch_response json_parse r = Inr (JsonValue j)"
    "response_ok r \<and> rs_status r \<noteq> 204 \<and> str_includes (contentType_of r) ''application/json'' \<and>
    json_parse (rs_text r) = Inl m \<longrightarrow> apiFetch_response json_parse r = Inl (SyntaxError m)"
    "response_ok r \<and> rs_status r \<noteq> 204 \<and> \<not> str_includes (contentType_of r) ''application/json'' \<longrightarrow>
      apiFetch_response json_parse r = Inr (TextValue (rs_text r))"
    by (simp_all add: apiFetch_response_def Let_def)
  from a b c d ct show ?thesis
    unfolding e by blast
qed

theorem apiFetch_outcome_witness:
  "demo_fetch (apiFetch_request ''/api'' ''/a'' get_options (Some ''tok'')) = Response answer_not_found \<and>
   \<not> response_ok answer_not_found \<and>
   apiFetch ''/api'' demo_fetch demo_json_parse ''/a'' get_options (Some ''tok'')
     = Inl (Error ''not found'') \<and>
   \<not> response_ok answer_failure \<and>
   apiFetch ''/api'' demo_fetch demo_json_parse ''/b'' get_options (Some ''tok'')
     = Inl (Error ''Request failed (500)'') \<and>
   rs_status answer_no_content = 204 \<and>
   apiFetch ''/api'' demo_fetch demo_json_parse ''/c'' get_options (Some ''tok'')
     = Inr EmptyObject \<and>
   response_ok answer_json \<and> rs_status answer_json \<noteq> 204 \<and>
   str_includes (contentType_of answer_json) ''application/json'' \<and>
   demo_json_parse (rs_text answer_json) = Inr [] \<and>
   apiFetch ''/api'' demo_fetch demo_json_parse ''/d'' get_options (Some ''tok'')
     = Inr (JsonValue []) \<and>
   response_ok answer_text \<and> rs_status answer_text \<noteq> 204 \<and>
   \<not> str_includes (contentType_of answer_text) ''application/json'' \<and>
   apiFetch ''/api'' demo_fetch demo_json_parse ''/e'' get_options (Some ''tok'')
     = Inr (TextValue ''hello'') \<and>
   response_ok answer_empty_json \<and> rs_status answer_empty_json \<noteq> 204 \<and>
   str_includes (contentType_of answer_empty_json) ''application/json'' \<and>
   demo_json_parse (rs_text answer_empty_json) = Inl ''Unexpected end of JSON input'' \<and>
   apiFetch ''/api'' demo_fetch demo_json_parse ''/f'' get_options (Some ''tok'')
     = Inl (SyntaxError ''Unexpected end of JSON input'') \<and>
   contentType_of answer_two_types = ''text/plain, application/json'' \<and>
   apiFetch ''/api'' demo_fetch demo_json_parse ''/g'' get_options (Some ''tok'')
     = Inr (JsonValue [])"
proof -
  let ?A = "apiFetch ''/api'' demo_fetch demo_json_parse"
  note ev = demo_answers demo_content_types starts_with_def demo_parses
  have a: "?A ''/a'' get_options (Some ''tok'') = Inl (Error ''not found'')"
    using apiFetch_outcome [where fetch = demo_fetch and json_parse = demo_json_parse,
          OF demo_fetch_answers(1)]
    by (simp add: ev)
  have b: "?A ''/b'' get_options (Some ''tok'') = Inl (Error ''Request failed (500)'')"
    using apiFetch_outcome [where fetch = demo_fetch and json_parse = demo_json_parse,
          OF demo_fetch_answers(2)]
    by (simp add: ev String_of_int_def dec_nat.simps digit_char_def)
  have c: "?A ''/c'' get_options (Some ''tok'') = Inr EmptyObject"
    using apiFetch_outcome [where fetch = demo_fetch and json_parse = demo_json_parse,
          OF demo_fetch_answers(3)]
    by (simp add: ev)
  have d: "?A ''/d'' get_options (Some ''tok'') = Inr (JsonValue [])"
    using apiFetch_outcome [where fetch = demo_fetch and json_parse = demo_json_parse
          and j = "[]", OF demo_fetch_answers(4)]
    by (simp add: ev)
  have e: "?A ''/e'' get_options (Some ''tok'') = Inr (TextValue ''hello'')"
    using apiFetch_outcome [where fetch = demo_fetch and json_parse = demo_json_parse,
          OF demo_fetch_answers(5)]
    by (simp add: ev)
  have f: "?A ''/f'' get_options (Some ''tok'') = Inl (SyntaxError ''Unexpected end of JSON input'')"
    using apiFetch_outcome [where fetch = demo_fetch and json_parse = demo_json_parse
          and m = "''Unexpected end of JSON input''", OF demo_fetch_answers(6)]
    by (simp add: ev)
  have g: "?A ''/g'' get_options (Some ''tok'') = Inr (JsonValue [])"
    using apiFetch_outcome [where fetch = demo_fetch and json_parse = demo_json_parse
          and j = "[]", OF demo_fetch_answers(7)]
    by (simp add: ev)
  from demo_fetch_answers(1) a b c d e f g show ?thesis
    by (simp add: ev)
qed

section \<open>Link creation\<close>

lemma with_password_expiry [simp]:
  "lp_expires_at (with_password pw p) = lp_expires_at p"
  "lp_no_expiry (with_password pw p) = lp_no_expiry p"
  by (simp_all add: with_password_def)

lemma um_build_payload_one_expiry:
  "um_build_payload pf st = Built p \<Longrightarrow> (lp_expires_at p = None) \<noteq> (lp_no_expiry p = None)"
  by (auto simp: um_build_payload_def empty_payload_def split: if_splits option.splits)

lemma fm_build_payload_one_expiry:
  "fm_build_payload pf form = Built p \<Longrightarrow> (lp_expires_at p = None) \<noteq> (lp_no_expiry p = None)"
  by (auto simp: fm_build_payload_def empty_payload_def split: if_splits option.splits)

lemma handleCreateDownloadLink_requests:
  "rq \<in> set (fst (snd (handleCreateDownloadLink pf base api st))) \<Longrightarrow>
   \<exists>fileId p. rq = (fileId, p) \<and> um_fileId st = Some fileId \<and> um_build_payload pf st = Built p"
  by (auto simp: handleCreateDownloadLink_def Let_def
      split: option.splits built.splits sum.splits prod.splits)

lemma handleCreateLink_requests:
  "rq \<in> set (fst (snd (handleCreateLink pf api fileId st))) \<Longrightarrow>
   \<exists>p. rq = (fileId, p) \<and> fm_build_payload pf (fm_form st fileId) = Built p"
  by (auto simp: handleCreateLink_def Let_def split: built.splits sum.splits)

text \<open>
  C7. Every link-creation request that either component sends carries exactly one of
  \<open>expires_at\<close> and \<open>no_expiry\<close>. When the user has given neither an expiry nor the
  never-expires option, the handler sends no request: it sets the validation message of the
  form and changes nothing else.
\<close>

theorem link_request_has_one_expiry:
  "(\<forall>rq \<in> set (fst (snd (handleCreateDownloadLink pf base api st))).
      (lp_expires_at (snd rq) = None) \<noteq> (lp_no_expiry (snd rq) = None)) \<and>
   (\<forall>rq \<in> set (fst (snd (handleCreateLink pf api fileId fs))).
      (lp_expires_at (snd rq) = None) \<noteq> (lp_no_expiry (snd rq) = None)) \<and>
   (um_fileId st = Some fid \<and> \<not> um_linkNoExpiry st \<and> um_linkExpiresAt st = [] \<longrightarrow>
      handleCreateDownloadLink pf base api st
        = (st\<lparr>um_linkFormError := Some ExpiryRequiredUM\<rparr>, [], 0)) \<and>
   (\<not> lf_noExpiry (fm_form fs fileId) \<and> lf_expiresAt (fm_form fs fileId) = [] \<longrightarrow>
      handleCreateLink pf api fileId fs
        = (fs\<lparr>fm_formErrors := (fm_formErrors fs)(fileId \<mapsto> Some ExpiryRequiredFM)\<rparr>,
           [], 0, None))"
proof -
  have a: "\<forall>rq \<in> set (fst (snd (handleCreateDownloadLink pf base api st))).
      (lp_expires_at (snd rq) = None) \<noteq> (lp_no_expiry (snd rq) = None)"
    using handleCreateDownloadLink_requests um_build_payload_one_expiry by fastforce
  have b: "\<forall>rq \<in> set (fst (snd (handleCreateLink pf api fileId fs))).
      (lp_expires_at (snd rq) = None) \<noteq> (lp_no_expiry (snd rq) = None)"
    using handleCreateLink_requests fm_build_payload_one_expiry by fastforce
  have c: "um_fileId st = Some fid \<and> \<not> um_linkNoExpiry st \<and> um_linkExpiresAt st = [] \<longrightarrow>
      handleCreateDownloadLink pf base api st
        = (st\<lparr>um_linkFormError := Some ExpiryRequiredUM\<rparr>, [], 0)"
    by (simp add: handleCreateDownloadLink_def um_build_payload_def)
  have d: "\<not> lf_noExpiry (fm_form fs fileId) \<and> lf_expiresAt (fm_form fs fileId) = [] \<longrightarrow>
      handleCreateLink pf api fileId fs
        = (fs\<lparr>fm_formErrors := (fm_formErrors fs)(fileId \<mapsto> Some ExpiryRequiredFM)\<rparr>,
           [], 0, None)"
    by (simp add: handleCreateLink_def fm_build_payload_def)
  from a b c d show ?thesis by blast
qed

lemma demo_link_requests:
  "fst (snd (handleCreateDownloadLink demo_platform ''https://files.example'' demo_api
      (finished_state\<lparr>um_linkNoExpiry := True\<rparr>)))
     = [(''f1'', empty_payload\<lparr>lp_no_expiry := Some True, lp_require_download_page := Some False,
                 lp_create_short_link := Some False\<rparr>)]"
  "fst (snd (handleCreateLink demo_platform demo_api ''f1'' (fm_with dated_form)))
     = [(''f1'', empty_payload\<lparr>lp_expires_at := Some ''2030-01-01T00:00:00.000Z'',
                 lp_password := Some ''pw12'', lp_require_download_page := Some False,
                 lp_create_short_link := Some False\<rparr>)]"
  by (simp_all add: handleCreateDownloadLink_def finished_state_def demo_state_def
      um_build_payload_def with_password_def js_trim_def is_space_def demo_api_def
      empty_payload_def plain_link_def protected_short_link_def um_links_def Let_def
      handleCreateLink_def fm_with_def fm_form_def dated_form_def createDefaultFormState_def
      fm_build_payload_def demo_platform_def split: prod.split)

theorem link_request_has_one_expiry_witness:
  "(''f1'', empty_payload\<lparr>lp_no_expiry := Some True, lp_require_download_page := Some False,
                 lp_create_short_link := Some False\<rparr>)
     \<in> set (fst (snd (handleCreateDownloadLink demo_platform ''https://files.example'' demo_api
          (finished_state\<lparr>um_linkNoExpiry := True\<rparr>)))) \<and>
   lp_expires_at (empty_payload\<lparr>lp_no_expiry := Some True, lp_require_download_page := Some False,
                 lp_create_short_link := Some False\<rparr>) = None \<and>
   lp_no_expiry (empty_payload\<lparr>lp_no_expiry := Some True, lp_require_download_page := Some False,
                 lp_create_short_link := Some False\<rparr>) \<noteq> None \<and>
   (''f1'', empty_payload\<lparr>lp_expires_at := Some ''2030-01-01T00:00:00.000Z'',
                 lp_password := Some ''pw12'', lp_require_download_page := Some False,
                 lp_create_short_link := Some False\<rparr>)
     \<in> set (fst (snd (handleCreateLink demo_platform demo_api ''f1'' (fm_with dated_form)))) \<and>
   um_fileId finished_state = Some ''f1'' \<and> \<not> um_linkNoExpiry finished_state \<and>
   um_linkExpiresAt finished_state = [] \<and>
   handleCreateDownloadLink demo_platform ''https://files.example'' demo_api finished_state
     = (finished_state\<lparr>um_linkFormError := Some ExpiryRequiredUM\<rparr>, [], 0) \<and>
   \<not> lf_noExpiry (fm_form (fm_with createDefaultFormState) ''f1'') \<and>
   lf_expiresAt (fm_form (fm_with createDefaultFormState) ''f1'') = [] \<and>
   handleCreateLink demo_platform demo_api ''f1'' (fm_with createDefaultFormState)
     = ((fm_with createDefaultFormState)\<lparr>fm_formErrors :=
           (fm_formErrors (fm_with createDefaultFormState))(''f1'' \<mapsto> Some ExpiryRequiredFM)\<rparr>,
        [], 0, None)"
proof -
  let ?p1 = "empty_payload\<lparr>lp_no_expiry := Some True, lp_require_download_page := Some False,
                 lp_create_short_link := Some False\<rparr>"
  let ?p2 = "empty_payload\<lparr>lp_expires_at := Some ''2030-01-01T00:00:00.000Z'',
                 lp_password := Some ''pw12'', lp_require_download_page := Some False,
                 lp_create_short_link := Some False\<rparr>"
  have m1: "(''f1'', ?p1) \<in> set (fst (snd (handleCreateDownloadLink demo_platform
        ''https://files.example'' demo_api (finished_state\<lparr>um_linkNoExpiry := True\<rparr>))))"
    by (simp add: demo_link_requests)
  have m2: "(''f1'', ?p2) \<in> set (fst (snd (handleCreateLink demo_platform demo_api ''f1''
        (fm_with dated_form))))"
    by (simp add: demo_link_requests)
  have h3: "um_fileId finished_state = Some ''f1''" "\<not> um_linkNoExpiry finished_state"
    "um_linkExpiresAt finished_state = []"
    by (simp_all add: finished_state_def demo_state_def)
  have h4: "\<not> lf_noExpiry (fm_form (fm_with createDefaultFormState) ''f1'')"
    "lf_expiresAt (fm_form (fm_with createDefaultFormState) ''f1'') = []"
    by (simp_all add: fm_form_def fm_with_def createDefaultFormState_def)
  have v: "lp_expires_at ?p1 = None" "lp_no_expiry ?p1 \<noteq> None"
    by (simp_all add: empty_payload_def)
  have c3: "handleCreateDownloadLink demo_platform ''https://files.example'' demo_api finished_state
     = (finished_state\<lparr>um_linkFormError := Some ExpiryRequiredUM\<rparr>, [], 0)"
    by (rule link_request_has_one_expiry [where st = finished_state and fid = "''f1''",
          THEN conjunct2, THEN conjunct2, THEN conjunct1, THEN mp])
       (intro conjI; fact)
  have c4: "handleCreateLink demo_platform demo_api ''f1'' (fm_with createDefaultFormState)
     = ((fm_with createDefaultFormState)\<lparr>fm_formErrors :=
           (fm_formErrors (fm_with createDefaultFormState))(''f1'' \<mapsto> Some ExpiryRequiredFM)\<rparr>,
        [], 0, None)"
    by (rule link_request_has_one_expiry [where fs = "fm_with createDefaultFormState"
          and fileId = "''f1''", THEN conjunct2, THEN conjunct2, THEN conjunct2, THEN mp])
       (intro conjI; fact)
  have c1: "(lp_expires_at (snd (''f1'', ?p1)) = None) \<noteq> (lp_no_expiry (snd (''f1'', ?p1)) = None)"
    by (rule link_request_has_one_expiry [THEN conjunct1, THEN bspec, OF m1])
  have c2: "(lp_expires_at (snd (''f1'', ?p2)) = None) \<noteq> (lp_no_expiry (snd (''f1'', ?p2)) = None)"
    by (rule link_request_has_one_expiry [THEN conjunct2, THEN conjunct1, THEN bspec, OF m2])
  show ?thesis
    by (intro conjI; fact)
qed

section \<open>The links shown for a download link\<close>







end
